theory Spec2Isabelle
  imports Main "HOL-Library.Word"
begin

section \<open>C types used by \<open>jpeg_encoder.c\<close>\<close>

text \<open>
  \<open>int\<close> is a 32-bit word read as two's complement (\<open>sint\<close>); its arithmetic wraps
  around. \<open>size_t\<close> is a 64-bit unsigned word. The conversion of an \<open>int\<close> to
  \<open>size_t\<close> is the sign-extending \<open>scast\<close>, the conversion back is the truncating
  \<open>ucast\<close>.
\<close>

type_synonym c_int = "32 word"
type_synonym size_t = "64 word"
type_synonym uint8_t = "8 word"

definition sizeof_uint8_t :: size_t where
  "sizeof_uint8_t = 1"

definition sizeof_int16_t :: size_t where
  "sizeof_int16_t = 2"

definition sizeof_uint16_t :: size_t where
  "sizeof_uint16_t = 2"

text \<open>A pointer is \<open>NULL\<close> or the address of an allocated block.\<close>

datatype pointer = NULL | Addr nat

text \<open>\<open>&base[index]\<close>: a base pointer and an element index.\<close>

type_synonym elem_ptr = "pointer \<times> int"

datatype cudaError_t = cudaSuccess | cudaError nat

datatype cudaMemcpyKind = cudaMemcpyHostToDevice | cudaMemcpyDeviceToHost

datatype jpeg_component_type = JPEG_COMPONENT_LUMINANCE | JPEG_COMPONENT_CHROMINANCE

datatype jpeg_huffman_type = JPEG_HUFFMAN_DC | JPEG_HUFFMAN_AC

datatype jpeg_marker_code = JPEG_MARKER_EOI

text \<open>
  Modelled from the spec: the enumeration constants \<open>JPEG_COMPONENT_TYPE_COUNT\<close> and
  \<open>JPEG_HUFFMAN_TYPE_COUNT\<close> are declared in a header that is not part of the source
  file. The spec names two component classes (luminance, chrominance) and two
  coefficient types (DC, AC); the loops \<open>for (t = 0; t < ..._COUNT; t++)\<close> run over
  these lists in this order.
\<close>

definition component_types :: "jpeg_component_type list" where
  "component_types = [JPEG_COMPONENT_LUMINANCE, JPEG_COMPONENT_CHROMINANCE]"

definition huffman_types :: "jpeg_huffman_type list" where
  "huffman_types = [JPEG_HUFFMAN_DC, JPEG_HUFFMAN_AC]"

text \<open>The pointer fields of the context that receive an allocation.\<close>

datatype buffer_field =
    D_DATA_SOURCE
  | D_DATA
  | DATA_QUANTIZED
  | D_DATA_QUANTIZED
  | D_TABLE jpeg_component_type

text \<open>\<open>struct jpeg_encoder\<close>, with the fields the source file reads and writes.\<close>

record jpeg_encoder =
  width :: c_int
  height :: c_int
  comp_count :: c_int
  quality :: c_int
  writer :: pointer
  d_data_source :: pointer
  d_data :: pointer
  data_quantized :: pointer
  d_data_quantized :: pointer
  d_table :: "jpeg_component_type \<Rightarrow> pointer"

text \<open>A failed \<open>assert\<close> aborts the process; the text is the asserted expression.\<close>

datatype abort = Assertion_failed string

section \<open>Calls to collaborators\<close>

text \<open>
  Every call that leaves the file (allocator, accelerator runtime, preprocessor,
  transform primitive, writer, entropy coder, diagnostic stream) is recorded, with the
  arguments the source passes, in the order of execution.
\<close>

datatype event =
    Malloc_encoder
  | Jpeg_writer_create
  | CudaMalloc buffer_field size_t
  | CudaMallocHost buffer_field size_t
  | Jpeg_table_quantization_encoder_init jpeg_component_type c_int
  | Jpeg_table_huffman_encoder_init jpeg_component_type jpeg_huffman_type
  | CudaMemcpy pointer pointer size_t cudaMemcpyKind
  | Jpeg_preprocessor_encode
  | NppiDCTQuantFwd8x8LS elem_ptr c_int elem_ptr c_int pointer "c_int \<times> c_int"
  | Fprintf_stderr string c_int
  | Jpeg_writer_write_header
  | Jpeg_writer_write_scan_header c_int jpeg_component_type
  | Jpeg_huffman_encoder_encode jpeg_component_type elem_ptr
  | Jpeg_writer_emit_marker jpeg_marker_code
  | CudaFree pointer
  | CudaFreeHost pointer
  | Jpeg_writer_destroy pointer
  | Free_encoder

section \<open>The counting loop\<close>

text \<open>
  \<open>for (int i = i0; i < n; i++) body\<close>, where the body may leave the function with a
  return value (\<open>Some r\<close>) or fall through to the next iteration (\<open>None\<close>).
\<close>

lemma sint_succ:
  fixes c n :: c_int
  assumes "sint c < sint n"
  shows "sint (c + 1) = sint c + 1"
proof -
  have "sint n < 2 ^ 31"
    using sint_lt [of n] by simp
  moreover have "- (2 ^ 31) \<le> sint c"
    using sint_ge [of c] by simp
  ultimately have "- (2 ^ 31) \<le> sint c + 1" and "sint c + 1 < 2 ^ 31"
    using assms by linarith+
  then show ?thesis
    by (simp add: sint_word_ariths signed_take_bit_int_eq_self)
qed

function for_loop ::
  "c_int \<Rightarrow> c_int \<Rightarrow> (c_int \<Rightarrow> 's \<Rightarrow> 'r option \<times> 's) \<Rightarrow> 's \<Rightarrow> 'r option \<times> 's" where
  "for_loop i n body s =
     (if sint i < sint n then
        (case body i s of
           (Some r, s') \<Rightarrow> (Some r, s')
         | (None, s') \<Rightarrow> for_loop (i + 1) n body s')
      else (None, s))"
  by pat_completeness auto
termination
  by (relation "measure (\<lambda>(i, n, body, s). nat (sint n - sint i))") (auto simp: sint_succ)

text \<open>The values the loop variable takes when no iteration returns early.\<close>

function comp_indices :: "c_int \<Rightarrow> c_int \<Rightarrow> c_int list" where
  "comp_indices i n = (if sint i < sint n then i # comp_indices (i + 1) n else [])"
  by pat_completeness auto
termination
  by (relation "measure (\<lambda>(i, n). nat (sint n - sint i))") (auto simp: sint_succ)

section \<open>\<open>jpeg_encoder_create\<close>\<close>

text \<open>
  What the collaborators called by \<open>jpeg_encoder_create\<close> return: the pointer from
  \<open>malloc\<close> and from \<open>jpeg_writer_create\<close>, the status and the pointer stored by each
  \<open>cudaMalloc\<close> / \<open>cudaMallocHost\<close> (by receiving field and requested size), and the
  status of each table initialisation.
\<close>

record create_env =
  malloc_result :: pointer
  writer_create_result :: pointer
  cudaMalloc_result :: "buffer_field \<Rightarrow> size_t \<Rightarrow> cudaError_t \<times> pointer"
  cudaMallocHost_result :: "buffer_field \<Rightarrow> size_t \<Rightarrow> cudaError_t \<times> pointer"
  quantization_init_status :: "jpeg_component_type \<Rightarrow> c_int \<Rightarrow> c_int"
  huffman_init_status :: "jpeg_component_type \<Rightarrow> jpeg_huffman_type \<Rightarrow> c_int"

text \<open>
  The three table loops. Each returns \<open>False\<close> when the function leaves with
  \<open>return NULL\<close> inside the loop.
\<close>

fun alloc_tables ::
  "create_env \<Rightarrow> jpeg_component_type list \<Rightarrow> jpeg_encoder \<times> event list
     \<Rightarrow> bool \<times> jpeg_encoder \<times> event list" where
  "alloc_tables env [] (encoder, tr) = (True, encoder, tr)"
| "alloc_tables env (comp_type # rest) (encoder, tr) =
     (let size = 64 * sizeof_uint16_t;
          res = cudaMalloc_result env (D_TABLE comp_type) size;
          tr' = tr @ [CudaMalloc (D_TABLE comp_type) size]
      in if cudaSuccess \<noteq> fst res then (False, encoder, tr')
         else alloc_tables env rest
                (encoder\<lparr>d_table := (d_table encoder)(comp_type := snd res)\<rparr>, tr'))"

fun init_quantization_tables ::
  "create_env \<Rightarrow> c_int \<Rightarrow> jpeg_component_type list \<Rightarrow> event list \<Rightarrow> bool \<times> event list" where
  "init_quantization_tables env q [] tr = (True, tr)"
| "init_quantization_tables env q (comp_type # rest) tr =
     (let tr' = tr @ [Jpeg_table_quantization_encoder_init comp_type q]
      in if quantization_init_status env comp_type q \<noteq> 0 then (False, tr')
         else init_quantization_tables env q rest tr')"

fun init_huffman_row ::
  "create_env \<Rightarrow> jpeg_component_type \<Rightarrow> jpeg_huffman_type list \<Rightarrow> event list
     \<Rightarrow> bool \<times> event list" where
  "init_huffman_row env comp_type [] tr = (True, tr)"
| "init_huffman_row env comp_type (huff_type # rest) tr =
     (let tr' = tr @ [Jpeg_table_huffman_encoder_init comp_type huff_type]
      in if huffman_init_status env comp_type huff_type \<noteq> 0 then (False, tr')
         else init_huffman_row env comp_type rest tr')"

fun init_huffman_tables ::
  "create_env \<Rightarrow> jpeg_component_type list \<Rightarrow> event list \<Rightarrow> bool \<times> event list" where
  "init_huffman_tables env [] tr = (True, tr)"
| "init_huffman_tables env (comp_type # rest) tr =
     (case init_huffman_row env comp_type huffman_types tr of
        (False, tr') \<Rightarrow> (False, tr')
      | (True, tr') \<Rightarrow> init_huffman_tables env rest tr')"

text \<open>
  The result is the abort of a failed assertion, or the returned pointer: \<open>None\<close> for
  \<open>NULL\<close>, \<open>Some encoder\<close> for a pointer to the initialised structure; with it the calls
  made. \<open>malloc\<close> leaves the fields of the new structure indeterminate: the model
  starts them at \<open>NULL\<close>, and none is read before the function assigns it.
\<close>

definition jpeg_encoder_create ::
  "create_env \<Rightarrow> c_int \<Rightarrow> c_int \<Rightarrow> c_int \<Rightarrow> c_int
     \<Rightarrow> (abort + jpeg_encoder option) \<times> event list" where
  "jpeg_encoder_create env width' height' comp_count' quality' =
     (if comp_count' \<noteq> 3 then (Inl (Assertion_failed ''comp_count == 3''), [])
      else
        let tr1 = [Malloc_encoder] in
        if malloc_result env = NULL then (Inr None, tr1)
        else
          let encoder = \<lparr>width = width', height = height', comp_count = comp_count',
                quality = quality', writer = writer_create_result env,
                d_data_source = NULL, d_data = NULL, data_quantized = NULL,
                d_data_quantized = NULL, d_table = (\<lambda>t. NULL)\<rparr>;
              tr2 = tr1 @ [Jpeg_writer_create]
          in
          if writer encoder = NULL then (Inr None, tr2)
          else
            let data_size = width encoder * width encoder * comp_count encoder;
                r3 = cudaMalloc_result env D_DATA_SOURCE (scast data_size * sizeof_uint8_t);
                tr3 = tr2 @ [CudaMalloc D_DATA_SOURCE (scast data_size * sizeof_uint8_t)]
            in
            if cudaSuccess \<noteq> fst r3 then (Inr None, tr3)
            else
              let r4 = cudaMalloc_result env D_DATA (scast data_size * sizeof_uint8_t);
                  tr4 = tr3 @ [CudaMalloc D_DATA (scast data_size * sizeof_uint8_t)]
              in
              if cudaSuccess \<noteq> fst r4 then (Inr None, tr4)
              else
                let r5 = cudaMallocHost_result env DATA_QUANTIZED
                           (scast data_size * sizeof_int16_t);
                    tr5 = tr4 @ [CudaMallocHost DATA_QUANTIZED
                           (scast data_size * sizeof_int16_t)]
                in
                if cudaSuccess \<noteq> fst r5 then (Inr None, tr5)
                else
                  let r6 = cudaMalloc_result env D_DATA_QUANTIZED
                             (scast data_size * sizeof_int16_t);
                      tr6 = tr5 @ [CudaMalloc D_DATA_QUANTIZED
                             (scast data_size * sizeof_int16_t)]
                  in
                  if cudaSuccess \<noteq> fst r6 then (Inr None, tr6)
                  else
                    let encoder6 = encoder\<lparr>d_data_source := snd r3, d_data := snd r4,
                          data_quantized := snd r5, d_data_quantized := snd r6\<rparr>
                    in
                    (case alloc_tables env component_types (encoder6, tr6) of
                       (False, encoder7, tr7) \<Rightarrow> (Inr None, tr7)
                     | (True, encoder7, tr7) \<Rightarrow>
                         (case init_quantization_tables env quality' component_types tr7 of
                            (False, tr8) \<Rightarrow> (Inr None, tr8)
                          | (True, tr8) \<Rightarrow>
                              (case init_huffman_tables env component_types tr8 of
                                 (False, tr9) \<Rightarrow> (Inr None, tr9)
                               | (True, tr9) \<Rightarrow> (Inr (Some encoder7), tr9)))))"

section \<open>\<open>jpeg_encoder_encode\<close>\<close>

text \<open>
  The state an encode call works on: the Writer that \<open>encoder->writer\<close> points to
  (\<open>buffer\<close> and \<open>buffer_current\<close>, the latter as a byte offset from \<open>buffer\<close>, and the
  bytes of the buffer by offset), the caller's two output cells (\<open>None\<close> while nothing
  has been stored there), and the calls made so far.
\<close>

record world =
  buffer :: pointer
  buffer_current :: nat
  buffer_bytes :: "nat \<Rightarrow> uint8_t"
  image_compressed :: "pointer option"
  image_compressed_size :: "c_int option"
  trace :: "event list"

definition trace_call :: "event \<Rightarrow> world \<Rightarrow> world" where
  "trace_call ev w = w\<lparr>trace := trace w @ [ev]\<rparr>"

text \<open>
  Modelled from the spec: the Writer's emission primitives (\<open>write_header\<close>,
  \<open>write_scan_header\<close>, \<open>emit_marker\<close>) and the Entropy Stage are not part of the
  source file. By the spec each of them mutates the Writer's buffer and advances its
  cursor: the bytes are stored at the cursor, which moves past them.
\<close>

definition writer_emit :: "uint8_t list \<Rightarrow> world \<Rightarrow> world" where
  "writer_emit bs w =
     w\<lparr>buffer_bytes :=
          (\<lambda>i. if buffer_current w \<le> i \<and> i < buffer_current w + length bs
               then bs ! (i - buffer_current w) else buffer_bytes w i),
       buffer_current := buffer_current w + length bs\<rparr>"

text \<open>The bytes in \<open>[buffer, buffer_current)\<close>.\<close>

definition compressed_range :: "world \<Rightarrow> uint8_t list" where
  "compressed_range w = map (buffer_bytes w) [0..<buffer_current w]"

text \<open>
  What the collaborators called by \<open>jpeg_encoder_encode\<close> return: the status of the two
  copies, of the preprocessor, of the transform primitive and of the entropy coder at
  each component index, and the bytes each Writer primitive and the entropy coder
  append.
\<close>

record encode_env =
  h2d_status :: cudaError_t
  preprocessor_status :: c_int
  dct_status :: "c_int \<Rightarrow> c_int"
  header_bytes :: "uint8_t list"
  d2h_status :: cudaError_t
  scan_header_bytes :: "c_int \<Rightarrow> jpeg_component_type \<Rightarrow> uint8_t list"
  huffman_bytes :: "c_int \<Rightarrow> uint8_t list"
  huffman_status :: "c_int \<Rightarrow> c_int"
  marker_bytes :: "jpeg_marker_code \<Rightarrow> uint8_t list"

text \<open>The body of the first loop: forward DCT and quantization of one component.\<close>

definition dct_body ::
  "encode_env \<Rightarrow> jpeg_encoder \<Rightarrow> c_int \<Rightarrow> world \<Rightarrow> c_int option \<times> world" where
  "dct_body env encoder comp' w =
     (let d_data_comp = (d_data encoder, sint (comp' * width encoder * height encoder));
          d_data_quantized_comp =
            (d_data_quantized encoder, sint (comp' * width encoder * height encoder));
          type = (if comp' = 0 then JPEG_COMPONENT_LUMINANCE else JPEG_COMPONENT_CHROMINANCE);
          fwd_roi = (width encoder, height encoder);
          w1 = trace_call
                 (NppiDCTQuantFwd8x8LS
                    d_data_comp
                    (ucast (scast (width encoder) * sizeof_uint8_t))
                    d_data_quantized_comp
                    (ucast (scast (width encoder * 8) * sizeof_int16_t))
                    (d_table encoder type)
                    fwd_roi) w;
          status = dct_status env comp'
      in if status \<noteq> 0 then
           (Some (- 1),
            trace_call
              (Fprintf_stderr ''Forward DCT failed for component at index %d!\<newline>'' comp') w1)
         else (None, w1))"

text \<open>The body of the second loop: scan header and Huffman coding of one component.\<close>

definition huffman_body ::
  "encode_env \<Rightarrow> jpeg_encoder \<Rightarrow> c_int \<Rightarrow> world \<Rightarrow> c_int option \<times> world" where
  "huffman_body env encoder comp' w =
     (let data_comp =
            (data_quantized encoder, sint (comp' * width encoder * height encoder));
          type = (if comp' = 0 then JPEG_COMPONENT_LUMINANCE else JPEG_COMPONENT_CHROMINANCE);
          w1 = writer_emit (scan_header_bytes env comp' type)
                 (trace_call (Jpeg_writer_write_scan_header comp' type) w);
          w2 = writer_emit (huffman_bytes env comp')
                 (trace_call (Jpeg_huffman_encoder_encode type data_comp) w1)
      in if huffman_status env comp' \<noteq> 0 then
           (Some (- 1),
            trace_call
              (Fprintf_stderr ''Huffman coder failed for component at index %d!\<newline>'' comp') w2)
         else (None, w2))"

text \<open>
  The return value of \<open>cudaMemcpy\<close> is compared with \<open>cudaSuccess\<close> for the copy to the
  device and discarded for the copy back to the host, so \<open>d2h_status\<close> is not read.
\<close>

definition jpeg_encoder_encode ::
  "encode_env \<Rightarrow> jpeg_encoder \<Rightarrow> pointer \<Rightarrow> world \<Rightarrow> c_int \<times> world" where
  "jpeg_encoder_encode env encoder image' w0 =
     (let data_size = width encoder * height encoder * comp_count encoder;
          w1 = trace_call
                 (CudaMemcpy (d_data_source encoder) image'
                    (scast data_size * sizeof_uint8_t) cudaMemcpyHostToDevice) w0
      in
      if cudaSuccess \<noteq> h2d_status env then (- 1, w1)
      else
        let w2 = trace_call Jpeg_preprocessor_encode w1 in
        if preprocessor_status env \<noteq> 0 then (- 1, w2)
        else
          (case for_loop 0 (comp_count encoder) (dct_body env encoder) w2 of
             (Some r, w3) \<Rightarrow> (r, w3)
           | (None, w3) \<Rightarrow>
               let w4 = w3\<lparr>buffer_current := 0\<rparr>;
                   w5 = writer_emit (header_bytes env) (trace_call Jpeg_writer_write_header w4);
                   w6 = trace_call
                          (CudaMemcpy (data_quantized encoder) (d_data_quantized encoder)
                             (scast data_size * sizeof_int16_t) cudaMemcpyDeviceToHost) w5
               in
               (case for_loop 0 (comp_count encoder) (huffman_body env encoder) w6 of
                  (Some r, w7) \<Rightarrow> (r, w7)
                | (None, w7) \<Rightarrow>
                    let w8 = writer_emit (marker_bytes env JPEG_MARKER_EOI)
                               (trace_call (Jpeg_writer_emit_marker JPEG_MARKER_EOI) w7);
                        w9 = w8\<lparr>image_compressed := Some (buffer w8),
                                image_compressed_size := Some (of_nat (buffer_current w8))\<rparr>
                    in (0, w9))))"

section \<open>\<open>jpeg_encoder_destroy\<close>\<close>

fun free_tables :: "jpeg_encoder \<Rightarrow> jpeg_component_type list \<Rightarrow> event list \<Rightarrow> event list" where
  "free_tables encoder [] tr = tr"
| "free_tables encoder (comp_type # rest) tr =
     (if d_table encoder comp_type \<noteq> NULL
      then free_tables encoder rest (tr @ [CudaFree (d_table encoder comp_type)])
      else free_tables encoder rest tr)"

text \<open>
  The argument is the pointer passed: \<open>None\<close> for \<open>NULL\<close>, \<open>Some encoder\<close> for a pointer
  to the structure. The result is the abort of a failed assertion or the returned
  status, with the calls made.
\<close>

definition jpeg_encoder_destroy ::
  "jpeg_encoder option \<Rightarrow> (abort + c_int) \<times> event list" where
  "jpeg_encoder_destroy p =
     (case p of
        None \<Rightarrow> (Inl (Assertion_failed ''encoder != NULL''), [])
      | Some encoder \<Rightarrow>
          let tr1 = free_tables encoder component_types [] in
          if writer encoder = NULL
          then (Inl (Assertion_failed ''encoder->writer != NULL''), tr1)
          else
            let tr2 = tr1 @ [Jpeg_writer_destroy (writer encoder)] in
            if d_data_source encoder = NULL
            then (Inl (Assertion_failed ''encoder->d_data_source != NULL''), tr2)
            else
              let tr3 = tr2 @ [CudaFree (d_data_source encoder)] in
              if d_data encoder = NULL
              then (Inl (Assertion_failed ''encoder->d_data != NULL''), tr3)
              else
                let tr4 = tr3 @ [CudaFree (d_data encoder)] in
                if data_quantized encoder = NULL
                then (Inl (Assertion_failed ''encoder->data_quantized != NULL''), tr4)
                else
                  let tr5 = tr4 @ [CudaFreeHost (data_quantized encoder)] in
                  if d_data_quantized encoder = NULL
                  then (Inl (Assertion_failed ''encoder->d_data_quantized != NULL''), tr5)
                  else
                    let tr6 = tr5 @ [CudaFree (d_data_quantized encoder)]
                    in (Inr 0, tr6 @ [Free_encoder]))"

section \<open>The calls and bytes of one component\<close>

text \<open>
  Names for the statements below: the call of the transform primitive, of the scan
  header and of the entropy coder that the loops issue at component index \<open>k\<close>, the
  bytes the second loop appends for \<open>k\<close>, and the state after its two emissions.
\<close>

definition transform_call :: "jpeg_encoder \<Rightarrow> c_int \<Rightarrow> event" where
  "transform_call encoder k =
     NppiDCTQuantFwd8x8LS
       (d_data encoder, sint (k * width encoder * height encoder))
       (ucast (scast (width encoder) * sizeof_uint8_t))
       (d_data_quantized encoder, sint (k * width encoder * height encoder))
       (ucast (scast (width encoder * 8) * sizeof_int16_t))
       (d_table encoder
          (if k = 0 then JPEG_COMPONENT_LUMINANCE else JPEG_COMPONENT_CHROMINANCE))
       (width encoder, height encoder)"

definition scan_header_call :: "c_int \<Rightarrow> event" where
  "scan_header_call k =
     Jpeg_writer_write_scan_header k
       (if k = 0 then JPEG_COMPONENT_LUMINANCE else JPEG_COMPONENT_CHROMINANCE)"

definition entropy_call :: "jpeg_encoder \<Rightarrow> c_int \<Rightarrow> event" where
  "entropy_call encoder k =
     Jpeg_huffman_encoder_encode
       (if k = 0 then JPEG_COMPONENT_LUMINANCE else JPEG_COMPONENT_CHROMINANCE)
       (data_quantized encoder, sint (k * width encoder * height encoder))"

definition scan_bytes :: "encode_env \<Rightarrow> c_int \<Rightarrow> uint8_t list" where
  "scan_bytes env k =
     scan_header_bytes env k
       (if k = 0 then JPEG_COMPONENT_LUMINANCE else JPEG_COMPONENT_CHROMINANCE)
     @ huffman_bytes env k"

definition scan_step :: "encode_env \<Rightarrow> jpeg_encoder \<Rightarrow> c_int \<Rightarrow> world \<Rightarrow> world" where
  "scan_step env encoder k w =
     writer_emit (huffman_bytes env k)
       (trace_call (entropy_call encoder k)
          (writer_emit
             (scan_header_bytes env k
                (if k = 0 then JPEG_COMPONENT_LUMINANCE else JPEG_COMPONENT_CHROMINANCE))
             (trace_call (scan_header_call k) w)))"

text \<open>
  The two copies as \<open>jpeg_encoder_encode\<close> issues them, the calls of a call in which
  no step fails, and the bytes such a call leaves in \<open>[buffer, buffer_current)\<close>.
\<close>

definition h2d_call :: "jpeg_encoder \<Rightarrow> pointer \<Rightarrow> event" where
  "h2d_call encoder image' =
     CudaMemcpy (d_data_source encoder) image'
       (scast (width encoder * height encoder * comp_count encoder) * sizeof_uint8_t)
       cudaMemcpyHostToDevice"

definition d2h_call :: "jpeg_encoder \<Rightarrow> event" where
  "d2h_call encoder =
     CudaMemcpy (data_quantized encoder) (d_data_quantized encoder)
       (scast (width encoder * height encoder * comp_count encoder) * sizeof_int16_t)
       cudaMemcpyDeviceToHost"

definition scan_calls :: "jpeg_encoder \<Rightarrow> c_int list \<Rightarrow> event list" where
  "scan_calls encoder ks = concat (map (\<lambda>k. [scan_header_call k, entropy_call encoder k]) ks)"

definition success_calls :: "jpeg_encoder \<Rightarrow> pointer \<Rightarrow> event list" where
  "success_calls encoder image' =
     [h2d_call encoder image', Jpeg_preprocessor_encode]
     @ map (transform_call encoder) (comp_indices 0 (comp_count encoder))
     @ [Jpeg_writer_write_header, d2h_call encoder]
     @ scan_calls encoder (comp_indices 0 (comp_count encoder))
     @ [Jpeg_writer_emit_marker JPEG_MARKER_EOI]"

definition success_bytes :: "encode_env \<Rightarrow> jpeg_encoder \<Rightarrow> uint8_t list" where
  "success_bytes env encoder =
     header_bytes env
     @ concat (map (scan_bytes env) (comp_indices 0 (comp_count encoder)))
     @ marker_bytes env JPEG_MARKER_EOI"

section \<open>Reading the list of calls\<close>

text \<open>
  Which calls are copies from the device to the host and which are calls of the
  transform primitive; and, of a call, the output region and area of interest or the
  quantization table given to the transform primitive, the arguments of a scan header,
  the input region or the component class given to the entropy coder.
\<close>

fun is_d2h_copy :: "event \<Rightarrow> bool" where
  "is_d2h_copy (CudaMemcpy dst src n kind) = (kind = cudaMemcpyDeviceToHost)"
| "is_d2h_copy _ = False"

fun is_transform :: "event \<Rightarrow> bool" where
  "is_transform (NppiDCTQuantFwd8x8LS src src_step dst dst_step table roi) = True"
| "is_transform _ = False"

fun transform_output :: "event \<Rightarrow> (elem_ptr \<times> c_int \<times> c_int) option" where
  "transform_output (NppiDCTQuantFwd8x8LS src src_step dst dst_step table roi) = Some (dst, roi)"
| "transform_output _ = None"

fun transform_table :: "event \<Rightarrow> pointer option" where
  "transform_table (NppiDCTQuantFwd8x8LS src src_step dst dst_step table roi) = Some table"
| "transform_table _ = None"

fun scan_header_args :: "event \<Rightarrow> (c_int \<times> jpeg_component_type) option" where
  "scan_header_args (Jpeg_writer_write_scan_header k type) = Some (k, type)"
| "scan_header_args _ = None"

fun entropy_input :: "event \<Rightarrow> elem_ptr option" where
  "entropy_input (Jpeg_huffman_encoder_encode type data_comp) = Some data_comp"
| "entropy_input _ = None"

fun entropy_class :: "event \<Rightarrow> jpeg_component_type option" where
  "entropy_class (Jpeg_huffman_encoder_encode type data_comp) = Some type"
| "entropy_class _ = None"

section \<open>Example inputs\<close>

text \<open>
  Collaborators that succeed at every call of \<open>jpeg_encoder_create\<close>, handing out the
  addresses 1 to 8, and the context that \<open>jpeg_encoder_create\<close> builds from them for
  a 16 by 16 image.
\<close>

definition example_create_env :: create_env where
  "example_create_env =
     \<lparr>malloc_result = Addr 1,
      writer_create_result = Addr 2,
      cudaMalloc_result =
        (\<lambda>field size.
           (cudaSuccess,
            case field of
              D_DATA_SOURCE \<Rightarrow> Addr 3
            | D_DATA \<Rightarrow> Addr 4
            | DATA_QUANTIZED \<Rightarrow> Addr 5
            | D_DATA_QUANTIZED \<Rightarrow> Addr 6
            | D_TABLE JPEG_COMPONENT_LUMINANCE \<Rightarrow> Addr 7
            | D_TABLE JPEG_COMPONENT_CHROMINANCE \<Rightarrow> Addr 8)),
      cudaMallocHost_result = (\<lambda>field size. (cudaSuccess, Addr 5)),
      quantization_init_status = (\<lambda>comp_type q. 0),
      huffman_init_status = (\<lambda>comp_type huff_type. 0)\<rparr>"

definition example_encoder :: jpeg_encoder where
  "example_encoder =
     \<lparr>width = 16, height = 16, comp_count = 3, quality = 75,
      writer = Addr 2, d_data_source = Addr 3, d_data = Addr 4,
      data_quantized = Addr 5, d_data_quantized = Addr 6,
      d_table = (\<lambda>t. case t of JPEG_COMPONENT_LUMINANCE \<Rightarrow> Addr 7
                         | JPEG_COMPONENT_CHROMINANCE \<Rightarrow> Addr 8)\<rparr>"

text \<open>
  Collaborators of \<open>jpeg_encoder_encode\<close> that succeed at every call and emit a few
  bytes each; the same with a failing copy from the device to the host; the same
  with a transform primitive that fails at component index 1; and a Writer whose
  cursor stands at offset 7 of a zeroed buffer at address 20.
\<close>

definition example_encode_env :: encode_env where
  "example_encode_env =
     \<lparr>h2d_status = cudaSuccess,
      preprocessor_status = 0,
      dct_status = (\<lambda>k. 0),
      header_bytes = [0xFF, 0xD8],
      d2h_status = cudaSuccess,
      scan_header_bytes = (\<lambda>k t. [0xFF, 0xDA, ucast k]),
      huffman_bytes = (\<lambda>k. [ucast k + 16]),
      huffman_status = (\<lambda>k. 0),
      marker_bytes = (\<lambda>m. [0xFF, 0xD9])\<rparr>"

definition d2h_failing_env :: encode_env where
  "d2h_failing_env = example_encode_env\<lparr>d2h_status := cudaError 1\<rparr>"

definition transform_failing_env :: encode_env where
  "transform_failing_env = example_encode_env\<lparr>dct_status := (\<lambda>k. if k = 1 then 1 else 0)\<rparr>"

definition example_world :: world where
  "example_world =
     \<lparr>buffer = Addr 20, buffer_current = 7, buffer_bytes = (\<lambda>i. 0),
      image_compressed = None, image_compressed_size = None, trace = []\<rparr>"

section \<open>Properties of the counting loop\<close>

declare for_loop.simps [simp del]
declare comp_indices.simps [simp del]

lemma sint_inj: "sint (a :: c_int) = sint b \<Longrightarrow> a = b"
  by (rule signed_word_eqI)

lemma set_comp_indices:
  "set (comp_indices i n) = {k. sint i \<le> sint k \<and> sint k < sint n}"
proof (induction i n rule: comp_indices.induct)
  case (1 i n)
  show ?case
  proof (cases "sint i < sint n")
    case True
    have "k = i \<or> sint (i + 1) \<le> sint k" if "sint i \<le> sint k" for k
      using that True sint_inj [of i k] by (auto simp: sint_succ)
    moreover have "sint i \<le> sint k" if "sint (i + 1) \<le> sint k" for k
      using that True by (simp add: sint_succ)
    ultimately show ?thesis
      using True "1.IH" by (subst comp_indices.simps) auto
  next
    case False
    then show ?thesis
      by (subst comp_indices.simps) auto
  qed
qed

lemma comp_indices_increasing:
  "sorted_wrt (\<lambda>a b. sint a < sint b) (comp_indices i n)"
proof (induction i n rule: comp_indices.induct)
  case (1 i n)
  show ?case
  proof (cases "sint i < sint n")
    case True
    then have "\<forall>x\<in>set (comp_indices (i + 1) n). sint i < sint x"
      by (simp add: set_comp_indices sint_succ)
    then show ?thesis
      using True "1.IH" by (subst comp_indices.simps) simp
  next
    case False
    then show ?thesis
      by (subst comp_indices.simps) simp
  qed
qed

lemma for_loop_all_None:
  "(\<forall>k\<in>set (comp_indices i n). \<forall>s. fst (body k s) = None) \<Longrightarrow>
   for_loop i n body s = (None, fold (\<lambda>k s. snd (body k s)) (comp_indices i n) s)"
proof (induction i n body s rule: for_loop.induct)
  case (1 i n body s)
  show ?case
  proof (cases "sint i < sint n")
    case True
    then have idx: "comp_indices i n = i # comp_indices (i + 1) n"
      by (subst comp_indices.simps) simp
    have "fst (body i s) = None"
      using "1.prems" idx by simp
    then obtain s' where b: "body i s = (None, s')"
      by (cases "body i s") auto
    have "for_loop (i + 1) n body s' =
        (None, fold (\<lambda>k s. snd (body k s)) (comp_indices (i + 1) n) s')"
      using "1.IH" [OF True b [symmetric] refl] "1.prems" idx by simp
    then show ?thesis
      using True b idx by (subst for_loop.simps) simp
  next
    case False
    then show ?thesis
      by (subst for_loop.simps, subst comp_indices.simps) simp
  qed
qed

lemma for_loop_Some:
  assumes "fst (for_loop i n body s) = Some r" and "Q s"
    and "\<And>k s. Q s \<Longrightarrow> fst (body k s) = None \<Longrightarrow> Q (snd (body k s))"
  shows "\<exists>k\<in>set (comp_indices i n). \<exists>s'. Q s' \<and> for_loop i n body s = body k s' \<and> fst (body k s') = Some r"
  using assms
proof (induction i n body s rule: for_loop.induct)
  case (1 i n body s)
  show ?case
  proof (cases "sint i < sint n")
    case True
    then have idx: "comp_indices i n = i # comp_indices (i + 1) n"
      by (subst comp_indices.simps) simp
    show ?thesis
    proof (cases "body i s")
      case (Pair a s')
      show ?thesis
      proof (cases a)
        case None
        have step: "for_loop i n body s = for_loop (i + 1) n body s'"
          using True Pair None by (subst for_loop.simps) simp
        have fs: "fst (body i s) = None" and sn: "snd (body i s) = s'"
          using Pair None by simp_all
        have Q': "Q s'"
          using "1.prems"(3) [OF "1.prems"(2) fs] sn by simp
        have "fst (for_loop (i + 1) n body s') = Some r"
          using "1.prems"(1) step by simp
        from "1.IH" [OF True Pair [symmetric] None this Q' "1.prems"(3)] show ?thesis
          using step idx by auto
      next
        case (Some r')
        then have "for_loop i n body s = body i s"
          using True Pair by (subst for_loop.simps) simp
        then show ?thesis
          using "1.prems"(1,2) idx by auto
      qed
    qed
  next
    case False
    then show ?thesis
      using "1.prems"(1) by (subst (asm) for_loop.simps) simp
  qed
qed

lemma for_loop_None_imp:
  assumes "fst (for_loop i n body s) = None" and "\<And>k s. fst (body k s) = ret k"
  shows "\<forall>k\<in>set (comp_indices i n). ret k = None"
  using assms
proof (induction i n body s rule: for_loop.induct)
  case (1 i n body s)
  show ?case
  proof (cases "sint i < sint n")
    case True
    then have idx: "comp_indices i n = i # comp_indices (i + 1) n"
      by (subst comp_indices.simps) simp
    show ?thesis
    proof (cases "body i s")
      case (Pair a s')
      show ?thesis
      proof (cases a)
        case None
        have step: "for_loop i n body s = for_loop (i + 1) n body s'"
          using True Pair None by (subst for_loop.simps) simp
        have "ret i = None"
          using "1.prems"(2) [of i s] Pair None by simp
        moreover have "\<forall>k\<in>set (comp_indices (i + 1) n). ret k = None"
          using "1.IH" [OF True Pair [symmetric] None _ "1.prems"(2)] "1.prems"(1) step
          by simp
        ultimately show ?thesis
          using idx by simp
      next
        case (Some r')
        then have "for_loop i n body s = body i s"
          using True Pair by (subst for_loop.simps) simp
        then show ?thesis
          using "1.prems"(1) Pair Some by simp
      qed
    qed
  next
    case False
    then show ?thesis
      by (subst comp_indices.simps) simp
  qed
qed

lemma for_loop_abort:
  assumes "sint i \<le> sint c" and "sint c < sint n"
    and "\<And>k s. sint i \<le> sint k \<Longrightarrow> sint k < sint c \<Longrightarrow> fst (body k s) = None"
    and "\<And>s. fst (body c s) \<noteq> None"
    and "Q s"
    and "\<And>k s. Q s \<Longrightarrow> fst (body k s) = None \<Longrightarrow> Q (snd (body k s))"
  shows "\<exists>s'. Q s' \<and> for_loop i n body s = body c s'"
  using assms
proof (induction i n body s rule: for_loop.induct)
  case (1 i n body s)
  have lt: "sint i < sint n"
    using "1.prems"(1,2) by simp
  show ?case
  proof (cases "i = c")
    case True
    obtain r s' where "body c s = (Some r, s')"
      using "1.prems"(4) [of s] by (cases "body c s") auto
    then have "for_loop i n body s = body c s"
      using lt True by (subst for_loop.simps) simp
    then show ?thesis
      using "1.prems"(5) by blast
  next
    case False
    then have "sint i \<noteq> sint c"
      using sint_inj by blast
    then have ic: "sint i < sint c"
      using "1.prems"(1) by simp
    then have le: "sint (i + 1) \<le> sint c"
      by (simp add: sint_succ)
    have fs: "fst (body i s) = None"
      using "1.prems"(3) [of i s] ic by simp
    then obtain s' where b: "body i s = (None, s')"
      by (cases "body i s") auto
    have step: "for_loop i n body s = for_loop (i + 1) n body s'"
      using lt b by (subst for_loop.simps) simp
    have Q': "Q s'"
      using "1.prems"(6) [OF "1.prems"(5) fs] b by simp
    have pre: "fst (body k t) = None" if "sint (i + 1) \<le> sint k" "sint k < sint c" for k t
      using "1.prems"(3) [of k t] that ic by (simp add: sint_succ)
    have "\<exists>t. Q t \<and> for_loop (i + 1) n body s' = body c t"
      by (rule "1.IH" [OF lt b [symmetric] refl le "1.prems"(2) pre "1.prems"(4) Q' "1.prems"(6)])
    then show ?thesis
      unfolding step .
  qed
qed

section \<open>Properties of the Writer and of the loop bodies\<close>

lemma trace_trace_call [simp]: "trace (trace_call ev w) = trace w @ [ev]"
  by (simp add: trace_call_def)

lemma fields_trace_call [simp]:
  "buffer (trace_call ev w) = buffer w"
  "buffer_current (trace_call ev w) = buffer_current w"
  "buffer_bytes (trace_call ev w) = buffer_bytes w"
  "image_compressed (trace_call ev w) = image_compressed w"
  "image_compressed_size (trace_call ev w) = image_compressed_size w"
  by (simp_all add: trace_call_def)

lemma fields_writer_emit [simp]:
  "trace (writer_emit bs w) = trace w"
  "buffer (writer_emit bs w) = buffer w"
  "buffer_current (writer_emit bs w) = buffer_current w + length bs"
  "image_compressed (writer_emit bs w) = image_compressed w"
  "image_compressed_size (writer_emit bs w) = image_compressed_size w"
  by (simp_all add: writer_emit_def)

lemma compressed_range_trace_call [simp]:
  "compressed_range (trace_call ev w) = compressed_range w"
  by (simp add: compressed_range_def)

lemma length_compressed_range [simp]: "length (compressed_range w) = buffer_current w"
  by (simp add: compressed_range_def)

lemma compressed_range_writer_emit [simp]:
  "compressed_range (writer_emit bs w) = compressed_range w @ bs"
  by (rule nth_equalityI) (auto simp: compressed_range_def writer_emit_def nth_append)

lemma compressed_range_reset [simp]:
  "compressed_range (w\<lparr>buffer_current := 0\<rparr>) = []"
  by (simp add: compressed_range_def)

lemma compressed_range_outputs [simp]:
  "compressed_range (w\<lparr>image_compressed := p, image_compressed_size := n\<rparr>) = compressed_range w"
  by (simp add: compressed_range_def)

lemma dct_body_eq:
  "dct_body env encoder k w =
     (if dct_status env k \<noteq> 0
      then (Some (- 1),
            trace_call
              (Fprintf_stderr ''Forward DCT failed for component at index %d!\<newline>'' k)
              (trace_call (transform_call encoder k) w))
      else (None, trace_call (transform_call encoder k) w))"
  by (simp add: dct_body_def transform_call_def Let_def)

lemma huffman_body_eq:
  "huffman_body env encoder k w =
     (if huffman_status env k \<noteq> 0
      then (Some (- 1),
            trace_call
              (Fprintf_stderr ''Huffman coder failed for component at index %d!\<newline>'' k)
              (scan_step env encoder k w))
      else (None, scan_step env encoder k w))"
  by (simp add: huffman_body_def scan_step_def scan_header_call_def entropy_call_def Let_def)

lemma fields_scan_step [simp]:
  "trace (scan_step env encoder k w) = trace w @ [scan_header_call k, entropy_call encoder k]"
  "buffer (scan_step env encoder k w) = buffer w"
  "image_compressed (scan_step env encoder k w) = image_compressed w"
  "image_compressed_size (scan_step env encoder k w) = image_compressed_size w"
  "compressed_range (scan_step env encoder k w) = compressed_range w @ scan_bytes env k"
  by (simp_all add: scan_step_def scan_bytes_def)

lemma fold_dct_body:
  "\<forall>k\<in>set ks. dct_status env k = 0 \<Longrightarrow>
   fold (\<lambda>k s. snd (dct_body env encoder k s)) ks w =
     w\<lparr>trace := trace w @ map (transform_call encoder) ks\<rparr>"
  by (induction ks arbitrary: w) (simp_all add: dct_body_eq trace_call_def)

lemma fold_huffman_body:
  "\<forall>k\<in>set ks. huffman_status env k = 0 \<Longrightarrow>
   fold (\<lambda>k s. snd (huffman_body env encoder k s)) ks w = fold (scan_step env encoder) ks w"
  by (induction ks arbitrary: w) (simp_all add: huffman_body_eq)

lemma fields_fold_scan_step [simp]:
  "trace (fold (scan_step env encoder) ks w) =
     trace w @ concat (map (\<lambda>k. [scan_header_call k, entropy_call encoder k]) ks)"
  "buffer (fold (scan_step env encoder) ks w) = buffer w"
  "image_compressed (fold (scan_step env encoder) ks w) = image_compressed w"
  "image_compressed_size (fold (scan_step env encoder) ks w) = image_compressed_size w"
  "compressed_range (fold (scan_step env encoder) ks w) =
     compressed_range w @ concat (map (scan_bytes env) ks)"
  by (induction ks arbitrary: w) simp_all

lemma dct_loop_cases:
  assumes "for_loop 0 n (dct_body env encoder) w = (r, w')"
  shows "(r = None \<and> (\<forall>k\<in>set (comp_indices 0 n). dct_status env k = 0) \<and>
            w' = w\<lparr>trace := trace w @ map (transform_call encoder) (comp_indices 0 n)\<rparr>)
       \<or> (r = Some (- 1) \<and>
            (\<exists>k\<in>set (comp_indices 0 n). dct_status env k \<noteq> 0 \<and>
               (\<exists>ks. w' = w\<lparr>trace := trace w @ map (transform_call encoder) ks @
                  [transform_call encoder k,
                   Fprintf_stderr ''Forward DCT failed for component at index %d!\<newline>'' k]\<rparr>)))"
proof (cases r)
  case None
  have "\<forall>k\<in>set (comp_indices 0 n).
          (if dct_status env k \<noteq> 0 then Some (- 1 :: c_int) else None) = None"
    by (rule for_loop_None_imp [where body = "dct_body env encoder" and s = w])
      (use assms None in \<open>simp_all add: dct_body_eq\<close>)
  then have ok: "\<forall>k\<in>set (comp_indices 0 n). dct_status env k = 0"
    by (auto split: if_splits)
  then have "for_loop 0 n (dct_body env encoder) w =
      (None, fold (\<lambda>k s. snd (dct_body env encoder k s)) (comp_indices 0 n) w)"
    by (intro for_loop_all_None) (simp add: dct_body_eq)
  then show ?thesis
    using assms None ok by (simp add: fold_dct_body)
next
  case (Some x)
  define Q where "Q s \<longleftrightarrow> (\<exists>ks. s = w\<lparr>trace := trace w @ map (transform_call encoder) ks\<rparr>)" for s
  have "Q w"
    unfolding Q_def by (rule exI [where x = "[]"]) simp
  moreover have "Q (snd (dct_body env encoder k s))"
    if "Q s" "fst (dct_body env encoder k s) = None" for k s
  proof -
    from that(1) obtain ks where "s = w\<lparr>trace := trace w @ map (transform_call encoder) ks\<rparr>"
      unfolding Q_def by blast
    moreover have "dct_status env k = 0"
      using that(2) by (simp add: dct_body_eq split: if_splits)
    ultimately show ?thesis
      unfolding Q_def by (intro exI [where x = "ks @ [k]"]) (simp add: dct_body_eq trace_call_def)
  qed
  moreover have "fst (for_loop 0 n (dct_body env encoder) w) = Some x"
    using assms Some by simp
  ultimately obtain k s' where k: "k \<in> set (comp_indices 0 n)" and "Q s'"
    and eq: "for_loop 0 n (dct_body env encoder) w = dct_body env encoder k s'"
    and fs: "fst (dct_body env encoder k s') = Some x"
    using for_loop_Some [where Q = Q and body = "dct_body env encoder"] by blast
  then obtain ks where s': "s' = w\<lparr>trace := trace w @ map (transform_call encoder) ks\<rparr>"
    unfolding Q_def by blast
  have st: "dct_status env k \<noteq> 0" and x: "x = - 1"
    using fs by (auto simp: dct_body_eq split: if_splits)
  have "w' = w\<lparr>trace := trace w @ map (transform_call encoder) ks @
          [transform_call encoder k,
           Fprintf_stderr ''Forward DCT failed for component at index %d!\<newline>'' k]\<rparr>"
    using assms eq st s' by (simp add: dct_body_eq trace_call_def)
  then show ?thesis
    using Some x k st by blast
qed

lemma huffman_loop_cases:
  assumes "for_loop 0 n (huffman_body env encoder) w = (r, w')"
  shows "(r = None \<and> (\<forall>k\<in>set (comp_indices 0 n). huffman_status env k = 0) \<and>
            w' = fold (scan_step env encoder) (comp_indices 0 n) w)
       \<or> (r = Some (- 1) \<and>
            (\<exists>k\<in>set (comp_indices 0 n). huffman_status env k \<noteq> 0 \<and>
               (\<exists>ks. w' = trace_call
                  (Fprintf_stderr ''Huffman coder failed for component at index %d!\<newline>'' k)
                  (scan_step env encoder k (fold (scan_step env encoder) ks w)))))"
proof (cases r)
  case None
  have "\<forall>k\<in>set (comp_indices 0 n).
          (if huffman_status env k \<noteq> 0 then Some (- 1 :: c_int) else None) = None"
    by (rule for_loop_None_imp [where body = "huffman_body env encoder" and s = w])
      (use assms None in \<open>simp_all add: huffman_body_eq\<close>)
  then have ok: "\<forall>k\<in>set (comp_indices 0 n). huffman_status env k = 0"
    by (auto split: if_splits)
  then have "for_loop 0 n (huffman_body env encoder) w =
      (None, fold (\<lambda>k s. snd (huffman_body env encoder k s)) (comp_indices 0 n) w)"
    by (intro for_loop_all_None) (simp add: huffman_body_eq)
  then show ?thesis
    using assms None ok by (simp add: fold_huffman_body)
next
  case (Some x)
  define Q where "Q s \<longleftrightarrow> (\<exists>ks. s = fold (scan_step env encoder) ks w)" for s
  have "Q w"
    unfolding Q_def by (rule exI [where x = "[]"]) simp
  moreover have "Q (snd (huffman_body env encoder k s))"
    if "Q s" "fst (huffman_body env encoder k s) = None" for k s
  proof -
    from that(1) obtain ks where "s = fold (scan_step env encoder) ks w"
      unfolding Q_def by blast
    moreover have "huffman_status env k = 0"
      using that(2) by (simp add: huffman_body_eq split: if_splits)
    ultimately show ?thesis
      unfolding Q_def by (intro exI [where x = "ks @ [k]"]) (simp add: huffman_body_eq)
  qed
  moreover have "fst (for_loop 0 n (huffman_body env encoder) w) = Some x"
    using assms Some by simp
  ultimately obtain k s' where k: "k \<in> set (comp_indices 0 n)" and "Q s'"
    and eq: "for_loop 0 n (huffman_body env encoder) w = huffman_body env encoder k s'"
    and fs: "fst (huffman_body env encoder k s') = Some x"
    using for_loop_Some [where Q = Q and body = "huffman_body env encoder"] by blast
  then obtain ks where s': "s' = fold (scan_step env encoder) ks w"
    unfolding Q_def by blast
  have st: "huffman_status env k \<noteq> 0" and x: "x = - 1"
    using fs by (auto simp: huffman_body_eq split: if_splits)
  have "w' = trace_call
          (Fprintf_stderr ''Huffman coder failed for component at index %d!\<newline>'' k)
          (scan_step env encoder k (fold (scan_step env encoder) ks w))"
    using assms eq st s' by (simp add: huffman_body_eq)
  then show ?thesis
    using Some x k st by blast
qed

section \<open>The paths through \<open>jpeg_encoder_encode\<close>\<close>

lemma encode_cases [consumes 1, case_names h2d_failed preprocessor_failed transform_failed
    entropy_failed succeeded]:
  assumes "jpeg_encoder_encode env encoder image' w = (r, w')"
  obtains
    "cudaSuccess \<noteq> h2d_status env" and "r = - 1"
      and "w' = w\<lparr>trace := trace w @ [h2d_call encoder image']\<rparr>"
  | "cudaSuccess = h2d_status env" and "preprocessor_status env \<noteq> 0" and "r = - 1"
      and "w' = w\<lparr>trace := trace w @ [h2d_call encoder image', Jpeg_preprocessor_encode]\<rparr>"
  | k ks where "cudaSuccess = h2d_status env" and "preprocessor_status env = 0"
      and "k \<in> set (comp_indices 0 (comp_count encoder))" and "dct_status env k \<noteq> 0"
      and "r = - 1"
      and "w' = w\<lparr>trace := trace w @ [h2d_call encoder image', Jpeg_preprocessor_encode]
             @ map (transform_call encoder) ks
             @ [transform_call encoder k,
                Fprintf_stderr ''Forward DCT failed for component at index %d!\<newline>'' k]\<rparr>"
  | k ks where "cudaSuccess = h2d_status env" and "preprocessor_status env = 0"
      and "\<forall>j\<in>set (comp_indices 0 (comp_count encoder)). dct_status env j = 0"
      and "k \<in> set (comp_indices 0 (comp_count encoder))" and "huffman_status env k \<noteq> 0"
      and "r = - 1"
      and "trace w' = trace w @ [h2d_call encoder image', Jpeg_preprocessor_encode]
             @ map (transform_call encoder) (comp_indices 0 (comp_count encoder))
             @ [Jpeg_writer_write_header, d2h_call encoder]
             @ scan_calls encoder ks
             @ [scan_header_call k, entropy_call encoder k,
                Fprintf_stderr ''Huffman coder failed for component at index %d!\<newline>'' k]"
      and "buffer w' = buffer w" and "image_compressed w' = image_compressed w"
      and "image_compressed_size w' = image_compressed_size w"
  | "cudaSuccess = h2d_status env" and "preprocessor_status env = 0"
      and "\<forall>j\<in>set (comp_indices 0 (comp_count encoder)). dct_status env j = 0"
      and "\<forall>j\<in>set (comp_indices 0 (comp_count encoder)). huffman_status env j = 0"
      and "r = 0"
      and "trace w' = trace w @ success_calls encoder image'"
      and "compressed_range w' = success_bytes env encoder"
      and "buffer w' = buffer w" and "image_compressed w' = Some (buffer w)"
      and "image_compressed_size w' = Some (of_nat (length (success_bytes env encoder)))"
proof -
  let ?n = "comp_count encoder"
  let ?w2 = "trace_call Jpeg_preprocessor_encode (trace_call (h2d_call encoder image') w)"
  note defs = jpeg_encoder_encode_def h2d_call_def [symmetric] d2h_call_def [symmetric] Let_def
  show thesis
  proof (cases "cudaSuccess \<noteq> h2d_status env")
    case True
    with assms have "r = - 1" and "w' = w\<lparr>trace := trace w @ [h2d_call encoder image']\<rparr>"
      by (simp_all add: defs trace_call_def)
    with True show thesis by (rule that(1))
  next
    case h2d: False
    show thesis
    proof (cases "preprocessor_status env \<noteq> 0")
      case True
      with assms h2d have "r = - 1"
        and "w' = w\<lparr>trace := trace w @ [h2d_call encoder image', Jpeg_preprocessor_encode]\<rparr>"
        by (simp_all add: defs trace_call_def)
      with h2d True show thesis by (intro that(2)) simp_all
    next
      case pre: False
      obtain r3 w3 where L1: "for_loop 0 ?n (dct_body env encoder) ?w2 = (r3, w3)"
        by (cases "for_loop 0 ?n (dct_body env encoder) ?w2") blast
      from dct_loop_cases [OF L1] show thesis
      proof (elim disjE conjE bexE exE)
        fix k ks
        assume r3: "r3 = Some (- 1)" and k: "k \<in> set (comp_indices 0 ?n)"
          and st: "dct_status env k \<noteq> 0"
          and w3: "w3 = ?w2\<lparr>trace := trace ?w2 @ map (transform_call encoder) ks @
              [transform_call encoder k,
               Fprintf_stderr ''Forward DCT failed for component at index %d!\<newline>'' k]\<rparr>"
        have "r = - 1" and "w' = w3"
          using assms h2d pre L1 r3 by (simp_all add: defs)
        with w3 h2d pre k st show thesis
          by (intro that(3) [of k ks]) (simp_all add: trace_call_def)
      next
        assume r3: "r3 = None" and ok3: "\<forall>k\<in>set (comp_indices 0 ?n). dct_status env k = 0"
          and w3: "w3 = ?w2\<lparr>trace := trace ?w2 @ map (transform_call encoder) (comp_indices 0 ?n)\<rparr>"
        let ?w6 = "trace_call (d2h_call encoder)
            (writer_emit (header_bytes env)
               (trace_call Jpeg_writer_write_header (w3\<lparr>buffer_current := 0\<rparr>)))"
        obtain r7 w7 where L2: "for_loop 0 ?n (huffman_body env encoder) ?w6 = (r7, w7)"
          by (cases "for_loop 0 ?n (huffman_body env encoder) ?w6") blast
        define w6 where "w6 = ?w6"
        have L2': "for_loop 0 ?n (huffman_body env encoder) w6 = (r7, w7)"
          unfolding w6_def by (rule L2)
        have tr6: "trace w6 = trace w @ [h2d_call encoder image', Jpeg_preprocessor_encode]
             @ map (transform_call encoder) (comp_indices 0 ?n)
             @ [Jpeg_writer_write_header, d2h_call encoder]"
          and b6: "buffer w6 = buffer w" and i6: "image_compressed w6 = image_compressed w"
          and s6: "image_compressed_size w6 = image_compressed_size w"
          and c6: "compressed_range w6 = header_bytes env"
          unfolding w6_def w3 by simp_all
        from huffman_loop_cases [OF L2'] show thesis
        proof (elim disjE conjE bexE exE)
          fix k ks
          assume r7: "r7 = Some (- 1)" and k: "k \<in> set (comp_indices 0 ?n)"
            and st: "huffman_status env k \<noteq> 0"
            and w7: "w7 = trace_call
                (Fprintf_stderr ''Huffman coder failed for component at index %d!\<newline>'' k)
                (scan_step env encoder k (fold (scan_step env encoder) ks w6))"
          have "r = - 1" and w': "w' = w7"
            using assms h2d pre L1 r3 L2 r7 by (simp_all add: defs)
          moreover have "trace w' = trace w @ [h2d_call encoder image', Jpeg_preprocessor_encode]
             @ map (transform_call encoder) (comp_indices 0 ?n)
             @ [Jpeg_writer_write_header, d2h_call encoder]
             @ scan_calls encoder ks
             @ [scan_header_call k, entropy_call encoder k,
                Fprintf_stderr ''Huffman coder failed for component at index %d!\<newline>'' k]"
            unfolding w' w7 by (simp add: tr6 scan_calls_def)
          moreover have "buffer w' = buffer w" "image_compressed w' = image_compressed w"
            "image_compressed_size w' = image_compressed_size w"
            unfolding w' w7 by (simp_all add: b6 i6 s6)
          ultimately show thesis
            using h2d pre ok3 k st by (intro that(4) [of k ks]) simp_all
        next
          assume r7: "r7 = None"
            and ok7: "\<forall>k\<in>set (comp_indices 0 ?n). huffman_status env k = 0"
            and w7: "w7 = fold (scan_step env encoder) (comp_indices 0 ?n) w6"
          let ?w8 = "writer_emit (marker_bytes env JPEG_MARKER_EOI)
                       (trace_call (Jpeg_writer_emit_marker JPEG_MARKER_EOI) w7)"
          have "r = 0" and w': "w' = ?w8\<lparr>image_compressed := Some (buffer ?w8),
                image_compressed_size := Some (of_nat (buffer_current ?w8))\<rparr>"
            using assms h2d pre L1 r3 L2 r7 by (simp_all add: defs)
          moreover have c8: "compressed_range ?w8 = success_bytes env encoder"
            unfolding w7 by (simp add: c6 success_bytes_def)
          have "compressed_range w' = success_bytes env encoder"
            unfolding w' using c8 by simp
          moreover have "trace w' = trace w @ success_calls encoder image'"
            unfolding w' w7 by (simp add: tr6 success_calls_def scan_calls_def)
          moreover have "buffer w' = buffer w" "image_compressed w' = Some (buffer w)"
            unfolding w' w7 by (simp_all add: b6)
          moreover have "buffer_current ?w8 = length (success_bytes env encoder)"
            using c8 length_compressed_range [of ?w8] by simp
          then have "image_compressed_size w' = Some (of_nat (length (success_bytes env encoder)))"
            unfolding w' by simp
          ultimately show thesis
            using h2d pre ok3 ok7 by (intro that(5)) simp_all
        qed
      qed
    qed
  qed
qed

lemma comp_indices_0_3: "comp_indices 0 3 = [0, 1, 2]"
  by (simp add: comp_indices.simps)

lemma encode_returns_0_iff:
  "fst (jpeg_encoder_encode env encoder image' w) = 0 \<longleftrightarrow>
     cudaSuccess = h2d_status env \<and> preprocessor_status env = 0 \<and>
     (\<forall>j\<in>set (comp_indices 0 (comp_count encoder)).
        dct_status env j = 0 \<and> huffman_status env j = 0)"
proof -
  obtain r w' where e: "jpeg_encoder_encode env encoder image' w = (r, w')"
    by (cases "jpeg_encoder_encode env encoder image' w") blast
  then show ?thesis
    by (cases rule: encode_cases) (auto simp: e)
qed

section \<open>Lists of calls and element indices\<close>

lemma map_filter_append:
  "List.map_filter f (xs @ ys) = List.map_filter f xs @ List.map_filter f ys"
  by (simp add: List.map_filter_def)

lemma unique_split:
  assumes "xs @ x # ys = pre @ y # post" and "P y"
    and "\<forall>a\<in>set xs. \<not> P a" and "\<forall>b\<in>set ys. \<not> P b"
  shows "pre = xs \<and> post = ys"
proof -
  have "y \<in> set (xs @ x # ys)"
    using assms(1) by simp
  then have "y = x"
    using assms(2-4) by auto
  moreover have "x \<notin> set xs" "x \<notin> set ys"
    using assms(2-4) \<open>y = x\<close> by auto
  ultimately show ?thesis
    using assms(1) append_Cons_eq_iff [of x xs ys pre post] by auto
qed


lemma example_encoder_trace:
  assumes "fst (jpeg_encoder_encode env example_encoder (Addr 9) example_world) = 0"
  shows "trace (snd (jpeg_encoder_encode env example_encoder (Addr 9) example_world)) =
     [CudaMemcpy (Addr 3) (Addr 9) 768 cudaMemcpyHostToDevice,
      Jpeg_preprocessor_encode,
      NppiDCTQuantFwd8x8LS (Addr 4, 0) 16 (Addr 6, 0) 256 (Addr 7) (16, 16),
      NppiDCTQuantFwd8x8LS (Addr 4, 256) 16 (Addr 6, 256) 256 (Addr 8) (16, 16),
      NppiDCTQuantFwd8x8LS (Addr 4, 512) 16 (Addr 6, 512) 256 (Addr 8) (16, 16),
      Jpeg_writer_write_header,
      CudaMemcpy (Addr 5) (Addr 6) 1536 cudaMemcpyDeviceToHost,
      Jpeg_writer_write_scan_header 0 JPEG_COMPONENT_LUMINANCE,
      Jpeg_huffman_encoder_encode JPEG_COMPONENT_LUMINANCE (Addr 5, 0),
      Jpeg_writer_write_scan_header 1 JPEG_COMPONENT_CHROMINANCE,
      Jpeg_huffman_encoder_encode JPEG_COMPONENT_CHROMINANCE (Addr 5, 256),
      Jpeg_writer_write_scan_header 2 JPEG_COMPONENT_CHROMINANCE,
      Jpeg_huffman_encoder_encode JPEG_COMPONENT_CHROMINANCE (Addr 5, 512),
      Jpeg_writer_emit_marker JPEG_MARKER_EOI]"
proof -
  obtain r w' where
    e: "jpeg_encoder_encode env example_encoder (Addr 9) example_world = (r, w')"
    by (cases "jpeg_encoder_encode env example_encoder (Addr 9) example_world") blast
  then have "trace w' = trace example_world @ success_calls example_encoder (Addr 9)"
    by (cases rule: encode_cases) (use assms e in simp_all)
  then have "trace w' =
     [CudaMemcpy (Addr 3) (Addr 9) 768 cudaMemcpyHostToDevice,
      Jpeg_preprocessor_encode,
      NppiDCTQuantFwd8x8LS (Addr 4, 0) 16 (Addr 6, 0) 256 (Addr 7) (16, 16),
      NppiDCTQuantFwd8x8LS (Addr 4, 256) 16 (Addr 6, 256) 256 (Addr 8) (16, 16),
      NppiDCTQuantFwd8x8LS (Addr 4, 512) 16 (Addr 6, 512) 256 (Addr 8) (16, 16),
      Jpeg_writer_write_header,
      CudaMemcpy (Addr 5) (Addr 6) 1536 cudaMemcpyDeviceToHost,
      Jpeg_writer_write_scan_header 0 JPEG_COMPONENT_LUMINANCE,
      Jpeg_huffman_encoder_encode JPEG_COMPONENT_LUMINANCE (Addr 5, 0),
      Jpeg_writer_write_scan_header 1 JPEG_COMPONENT_CHROMINANCE,
      Jpeg_huffman_encoder_encode JPEG_COMPONENT_CHROMINANCE (Addr 5, 256),
      Jpeg_writer_write_scan_header 2 JPEG_COMPONENT_CHROMINANCE,
      Jpeg_huffman_encoder_encode JPEG_COMPONENT_CHROMINANCE (Addr 5, 512),
      Jpeg_writer_emit_marker JPEG_MARKER_EOI]"
    by (simp add: success_calls_def scan_calls_def h2d_call_def d2h_call_def transform_call_def
        scan_header_call_def entropy_call_def example_encoder_def example_world_def
        comp_indices_0_3 sizeof_uint8_t_def sizeof_int16_t_def)
  then show ?thesis
    by (simp add: e)
qed

lemma no_d2h_copy_no_split:
  assumes "\<forall>x\<in>set evs. \<not> is_d2h_copy x"
  shows "\<forall>pre x post. evs = pre @ x # post \<and> is_d2h_copy x \<longrightarrow> R pre post"
  using assms by auto

lemma example_encode_succeeds:
  "fst (jpeg_encoder_encode example_encode_env example_encoder image' w) = 0"
  by (simp add: encode_returns_0_iff example_encode_env_def)

lemma projections_transform_calls:
  "List.map_filter transform_output (map (transform_call encoder) ks) =
     map (\<lambda>k. ((d_data_quantized encoder, sint (k * width encoder * height encoder)),
                (width encoder, height encoder))) ks"
  "List.map_filter transform_table (map (transform_call encoder) ks) =
     map (\<lambda>k. d_table encoder
       (if k = 0 then JPEG_COMPONENT_LUMINANCE else JPEG_COMPONENT_CHROMINANCE)) ks"
  "List.map_filter scan_header_args (map (transform_call encoder) ks) = []"
  "List.map_filter entropy_input (map (transform_call encoder) ks) = []"
  "List.map_filter entropy_class (map (transform_call encoder) ks) = []"
  by (induction ks) (simp_all add: List.map_filter_simps transform_call_def)

lemma projections_scan_calls:
  "List.map_filter transform_output (scan_calls encoder ks) = []"
  "List.map_filter transform_table (scan_calls encoder ks) = []"
  "List.map_filter scan_header_args (scan_calls encoder ks) =
     map (\<lambda>k. (k, if k = 0 then JPEG_COMPONENT_LUMINANCE else JPEG_COMPONENT_CHROMINANCE)) ks"
  "List.map_filter entropy_input (scan_calls encoder ks) =
     map (\<lambda>k. (data_quantized encoder, sint (k * width encoder * height encoder))) ks"
  "List.map_filter entropy_class (scan_calls encoder ks) =
     map (\<lambda>k. if k = 0 then JPEG_COMPONENT_LUMINANCE else JPEG_COMPONENT_CHROMINANCE) ks"
  by (induction ks)
    (simp_all add: List.map_filter_simps scan_calls_def scan_header_call_def entropy_call_def)

lemma projections_success_calls:
  "List.map_filter transform_output (success_calls encoder image') =
     map (\<lambda>k. ((d_data_quantized encoder, sint (k * width encoder * height encoder)),
                (width encoder, height encoder))) (comp_indices 0 (comp_count encoder))"
  "List.map_filter transform_table (success_calls encoder image') =
     map (\<lambda>k. d_table encoder
       (if k = 0 then JPEG_COMPONENT_LUMINANCE else JPEG_COMPONENT_CHROMINANCE))
       (comp_indices 0 (comp_count encoder))"
  "List.map_filter scan_header_args (success_calls encoder image') =
     map (\<lambda>k. (k, if k = 0 then JPEG_COMPONENT_LUMINANCE else JPEG_COMPONENT_CHROMINANCE))
       (comp_indices 0 (comp_count encoder))"
  "List.map_filter entropy_input (success_calls encoder image') =
     map (\<lambda>k. (data_quantized encoder, sint (k * width encoder * height encoder)))
       (comp_indices 0 (comp_count encoder))"
  "List.map_filter entropy_class (success_calls encoder image') =
     map (\<lambda>k. if k = 0 then JPEG_COMPONENT_LUMINANCE else JPEG_COMPONENT_CHROMINANCE)
       (comp_indices 0 (comp_count encoder))"
  by (simp_all add: success_calls_def map_filter_append projections_transform_calls
      projections_scan_calls List.map_filter_simps h2d_call_def d2h_call_def)

lemma encode_success_trace:
  assumes "jpeg_encoder_encode env encoder image' w = (0, w')"
  shows "trace w' = trace w @ success_calls encoder image'"
  using assms by (cases rule: encode_cases) simp_all

lemma example_encode_run:
  "jpeg_encoder_encode example_encode_env example_encoder image' w =
     (0, snd (jpeg_encoder_encode example_encode_env example_encoder image' w))"
  using example_encode_succeeds [of image' w] by (simp add: prod_eq_iff)

lemma encode_success_output:
  assumes "jpeg_encoder_encode env encoder image' w = (0, w')"
  shows "compressed_range w' = success_bytes env encoder"
    and "buffer w' = buffer w"
    and "image_compressed w' = Some (buffer w)"
    and "image_compressed_size w' = Some (of_nat (length (success_bytes env encoder)))"
  using assms by (cases rule: encode_cases; simp)+

section \<open>Creation and destruction of the context\<close>

lemma create_example:
  "fst (jpeg_encoder_create example_create_env 16 16 3 75) = Inr (Some example_encoder)"
  by (auto simp: jpeg_encoder_create_def example_create_env_def example_encoder_def
      component_types_def huffman_types_def Let_def split: jpeg_component_type.splits)

text \<open>
  C1. The claim: \<open>create\<close> allocates the source and the working buffer with
  \<open>width * height * component_count\<close> bytes and the two quantized-coefficient
  buffers with as many 16-bit elements. The code computes
  \<open>data_size = width * width * comp_count\<close>. For a context of width 8 and height 16
  the claim asks for 384 bytes and 384 elements (768 bytes); the calls made request 192
  bytes and 192 elements (384 bytes). \<open>encode\<close> on the context returned computes
  \<open>width * height * comp_count\<close> and copies 384 bytes to the source buffer.
\<close>

theorem create_allocates_width_squared:
  "snd (jpeg_encoder_create example_create_env 8 16 3 75) =
     [Malloc_encoder, Jpeg_writer_create,
      CudaMalloc D_DATA_SOURCE 192, CudaMalloc D_DATA 192,
      CudaMallocHost DATA_QUANTIZED 384, CudaMalloc D_DATA_QUANTIZED 384,
      CudaMalloc (D_TABLE JPEG_COMPONENT_LUMINANCE) 128,
      CudaMalloc (D_TABLE JPEG_COMPONENT_CHROMINANCE) 128,
      Jpeg_table_quantization_encoder_init JPEG_COMPONENT_LUMINANCE 75,
      Jpeg_table_quantization_encoder_init JPEG_COMPONENT_CHROMINANCE 75,
      Jpeg_table_huffman_encoder_init JPEG_COMPONENT_LUMINANCE JPEG_HUFFMAN_DC,
      Jpeg_table_huffman_encoder_init JPEG_COMPONENT_LUMINANCE JPEG_HUFFMAN_AC,
      Jpeg_table_huffman_encoder_init JPEG_COMPONENT_CHROMINANCE JPEG_HUFFMAN_DC,
      Jpeg_table_huffman_encoder_init JPEG_COMPONENT_CHROMINANCE JPEG_HUFFMAN_AC] \<and>
   fst (jpeg_encoder_create example_create_env 8 16 3 75) =
     Inr (Some (example_encoder\<lparr>width := 8\<rparr>)) \<and>
   hd (trace (snd (jpeg_encoder_encode example_encode_env (example_encoder\<lparr>width := 8\<rparr>)
         (Addr 9) example_world))) =
     CudaMemcpy (Addr 3) (Addr 9) 384 cudaMemcpyHostToDevice"
proof -
  have "snd (jpeg_encoder_create example_create_env 8 16 3 75) =
     [Malloc_encoder, Jpeg_writer_create,
      CudaMalloc D_DATA_SOURCE 192, CudaMalloc D_DATA 192,
      CudaMallocHost DATA_QUANTIZED 384, CudaMalloc D_DATA_QUANTIZED 384,
      CudaMalloc (D_TABLE JPEG_COMPONENT_LUMINANCE) 128,
      CudaMalloc (D_TABLE JPEG_COMPONENT_CHROMINANCE) 128,
      Jpeg_table_quantization_encoder_init JPEG_COMPONENT_LUMINANCE 75,
      Jpeg_table_quantization_encoder_init JPEG_COMPONENT_CHROMINANCE 75,
      Jpeg_table_huffman_encoder_init JPEG_COMPONENT_LUMINANCE JPEG_HUFFMAN_DC,
      Jpeg_table_huffman_encoder_init JPEG_COMPONENT_LUMINANCE JPEG_HUFFMAN_AC,
      Jpeg_table_huffman_encoder_init JPEG_COMPONENT_CHROMINANCE JPEG_HUFFMAN_DC,
      Jpeg_table_huffman_encoder_init JPEG_COMPONENT_CHROMINANCE JPEG_HUFFMAN_AC]"
    by (simp add: jpeg_encoder_create_def example_create_env_def
        component_types_def huffman_types_def Let_def
        sizeof_uint8_t_def sizeof_int16_t_def sizeof_uint16_t_def)
  moreover have "fst (jpeg_encoder_create example_create_env 8 16 3 75) =
     Inr (Some (example_encoder\<lparr>width := 8\<rparr>))"
    by (auto simp: jpeg_encoder_create_def example_create_env_def example_encoder_def
        component_types_def huffman_types_def Let_def split: jpeg_component_type.splits)
  moreover have "hd (trace (snd (jpeg_encoder_encode example_encode_env
         (example_encoder\<lparr>width := 8\<rparr>) (Addr 9) example_world))) =
     CudaMemcpy (Addr 3) (Addr 9) 384 cudaMemcpyHostToDevice"
  proof -
    have "fst (jpeg_encoder_encode example_encode_env (example_encoder\<lparr>width := 8\<rparr>)
        (Addr 9) example_world) = 0"
      by (simp add: encode_returns_0_iff example_encode_env_def)
    then have "jpeg_encoder_encode example_encode_env (example_encoder\<lparr>width := 8\<rparr>)
        (Addr 9) example_world =
        (0, snd (jpeg_encoder_encode example_encode_env (example_encoder\<lparr>width := 8\<rparr>)
        (Addr 9) example_world))"
      by (simp add: prod_eq_iff)
    from encode_success_trace [OF this] show ?thesis
      by (simp add: success_calls_def h2d_call_def example_world_def example_encoder_def
          sizeof_uint8_t_def)
  qed
  ultimately show ?thesis
    by blast
qed

text \<open>
  C3. A call of \<open>create\<close> with a component count other than 3 fails at the assertion
  \<open>comp_count == 3\<close>, the first statement of the function: no allocator, Writer or
  table call has been made.
\<close>

theorem create_asserts_comp_count:
  "comp_count' \<noteq> 3 \<Longrightarrow>
   jpeg_encoder_create env width' height' comp_count' quality' =
     (Inl (Assertion_failed ''comp_count == 3''), [])"
  by (simp add: jpeg_encoder_create_def)

theorem create_asserts_comp_count_witness:
  "(4 :: c_int) \<noteq> 3 \<and>
   jpeg_encoder_create example_create_env 16 16 4 75 =
     (Inl (Assertion_failed ''comp_count == 3''), [])"
  using create_asserts_comp_count [of 4 example_create_env 16 16 75] by simp

text \<open>
  C10. For a non-null context whose Writer, buffers and quantization tables are all
  non-null, \<open>destroy\<close> frees the two quantization tables, destroys the Writer, frees
  the device source and working buffers, the host and the device quantized buffers and
  the context itself, in this order, and returns 0.
\<close>

theorem destroy_releases_everything:
  assumes "d_table encoder JPEG_COMPONENT_LUMINANCE \<noteq> NULL"
    and "d_table encoder JPEG_COMPONENT_CHROMINANCE \<noteq> NULL"
    and "writer encoder \<noteq> NULL"
    and "d_data_source encoder \<noteq> NULL"
    and "d_data encoder \<noteq> NULL"
    and "data_quantized encoder \<noteq> NULL"
    and "d_data_quantized encoder \<noteq> NULL"
  shows "jpeg_encoder_destroy (Some encoder) =
     (Inr 0,
      [CudaFree (d_table encoder JPEG_COMPONENT_LUMINANCE),
       CudaFree (d_table encoder JPEG_COMPONENT_CHROMINANCE),
       Jpeg_writer_destroy (writer encoder),
       CudaFree (d_data_source encoder),
       CudaFree (d_data encoder),
       CudaFreeHost (data_quantized encoder),
       CudaFree (d_data_quantized encoder),
       Free_encoder])"
  using assms by (simp add: jpeg_encoder_destroy_def component_types_def Let_def)

theorem destroy_releases_everything_witness:
  "jpeg_encoder_destroy (Some example_encoder) =
     (Inr 0,
      [CudaFree (Addr 7), CudaFree (Addr 8), Jpeg_writer_destroy (Addr 2),
       CudaFree (Addr 3), CudaFree (Addr 4), CudaFreeHost (Addr 5), CudaFree (Addr 6),
       Free_encoder])"
  using destroy_releases_everything [of example_encoder]
  by (simp add: example_encoder_def)

section \<open>Failures during \<open>jpeg_encoder_encode\<close>\<close>

lemma encode_ignores_d2h_status:
  "jpeg_encoder_encode (env\<lparr>d2h_status := st\<rparr>) encoder image' w =
   jpeg_encoder_encode env encoder image' w"
proof -
  have "dct_body (env\<lparr>d2h_status := st\<rparr>) encoder = dct_body env encoder"
    by (intro ext) (simp add: dct_body_def)
  moreover have "huffman_body (env\<lparr>d2h_status := st\<rparr>) encoder = huffman_body env encoder"
    by (intro ext) (simp add: huffman_body_def)
  ultimately show ?thesis
    by (simp add: jpeg_encoder_encode_def Let_def
        cong: if_cong prod.case_cong option.case_cong)
qed

text \<open>
  C2. The claim: when the copy of the quantized coefficients from the device to the
  host fails, \<open>encode\<close> returns the failure signal and runs no later step. The code
  discards the status of that \<open>cudaMemcpy\<close> (it compares the status of the copy to the
  device with \<open>cudaSuccess\<close>). With a failing copy and every other collaborator
  succeeding, the call returns 0, and the scan header, the entropy coder for the
  components 0, 1 and 2 and the end-of-image marker are all called after the copy.
\<close>

theorem d2h_failure_ignored:
  "d2h_status d2h_failing_env \<noteq> cudaSuccess \<and>
   fst (jpeg_encoder_encode d2h_failing_env example_encoder (Addr 9) example_world) = 0 \<and>
   trace (snd (jpeg_encoder_encode d2h_failing_env example_encoder (Addr 9) example_world)) =
     [CudaMemcpy (Addr 3) (Addr 9) 768 cudaMemcpyHostToDevice,
      Jpeg_preprocessor_encode,
      NppiDCTQuantFwd8x8LS (Addr 4, 0) 16 (Addr 6, 0) 256 (Addr 7) (16, 16),
      NppiDCTQuantFwd8x8LS (Addr 4, 256) 16 (Addr 6, 256) 256 (Addr 8) (16, 16),
      NppiDCTQuantFwd8x8LS (Addr 4, 512) 16 (Addr 6, 512) 256 (Addr 8) (16, 16),
      Jpeg_writer_write_header,
      CudaMemcpy (Addr 5) (Addr 6) 1536 cudaMemcpyDeviceToHost,
      Jpeg_writer_write_scan_header 0 JPEG_COMPONENT_LUMINANCE,
      Jpeg_huffman_encoder_encode JPEG_COMPONENT_LUMINANCE (Addr 5, 0),
      Jpeg_writer_write_scan_header 1 JPEG_COMPONENT_CHROMINANCE,
      Jpeg_huffman_encoder_encode JPEG_COMPONENT_CHROMINANCE (Addr 5, 256),
      Jpeg_writer_write_scan_header 2 JPEG_COMPONENT_CHROMINANCE,
      Jpeg_huffman_encoder_encode JPEG_COMPONENT_CHROMINANCE (Addr 5, 512),
      Jpeg_writer_emit_marker JPEG_MARKER_EOI]"
proof -
  have ok: "fst (jpeg_encoder_encode d2h_failing_env example_encoder (Addr 9) example_world) = 0"
    by (simp add: encode_returns_0_iff d2h_failing_env_def example_encode_env_def)
  show ?thesis
    using ok example_encoder_trace [OF ok]
    by (simp add: d2h_failing_env_def example_encode_env_def)
qed

text \<open>
  C4. When the copy to the device and the preprocessor succeed and the transform
  primitive returns a non-zero status at component index \<open>c\<close> (it is called for \<open>c\<close>
  when it returned zero for every smaller index), \<open>encode\<close> returns \<open>-1\<close>, its last call
  prints the message with the index \<open>c\<close> to the diagnostic stream, and the entropy coder
  is not called. Only the list of calls changes: the Writer and the two output cells
  are as before the call.
\<close>

theorem transform_failure_aborts:
  assumes "cudaSuccess = h2d_status env" and "preprocessor_status env = 0"
    and "0 \<le> sint c" and "sint c < sint (comp_count encoder)"
    and "dct_status env c \<noteq> 0"
    and "\<forall>k. 0 \<le> sint k \<and> sint k < sint c \<longrightarrow> dct_status env k = 0"
  shows "\<exists>evs. jpeg_encoder_encode env encoder image' w =
           (- 1, w\<lparr>trace := trace w @ evs @
              [Fprintf_stderr ''Forward DCT failed for component at index %d!\<newline>'' c]\<rparr>)
         \<and> (\<forall>t p. Jpeg_huffman_encoder_encode t p \<notin> set evs)"
proof -
  let ?w2 = "trace_call Jpeg_preprocessor_encode (trace_call (h2d_call encoder image') w)"
  define Q where
    "Q s \<longleftrightarrow> (\<exists>ks. s = ?w2\<lparr>trace := trace ?w2 @ map (transform_call encoder) ks\<rparr>)" for s
  have "Q ?w2"
    unfolding Q_def by (rule exI [where x = "[]"]) simp
  moreover have "Q (snd (dct_body env encoder k s))"
    if "Q s" "fst (dct_body env encoder k s) = None" for k s
  proof -
    from that(1) obtain ks where "s = ?w2\<lparr>trace := trace ?w2 @ map (transform_call encoder) ks\<rparr>"
      unfolding Q_def by blast
    moreover have "dct_status env k = 0"
      using that(2) by (simp add: dct_body_eq split: if_splits)
    ultimately show ?thesis
      unfolding Q_def by (intro exI [where x = "ks @ [k]"]) (simp add: dct_body_eq trace_call_def)
  qed
  moreover have "fst (dct_body env encoder k s) = None" if "sint 0 \<le> sint k" "sint k < sint c" for k s
    using that assms(6) by (simp add: dct_body_eq)
  moreover have "fst (dct_body env encoder c s) \<noteq> None" for s
    using assms(5) by (simp add: dct_body_eq)
  moreover have "sint (0 :: c_int) \<le> sint c"
    using assms(3) by simp
  ultimately obtain s' where "Q s'"
    and eq: "for_loop 0 (comp_count encoder) (dct_body env encoder) ?w2 = dct_body env encoder c s'"
    using for_loop_abort [where Q = Q and body = "dct_body env encoder" and i = 0 and c = c
        and n = "comp_count encoder" and s = ?w2] assms(4)
    by blast
  then obtain ks where s': "s' = ?w2\<lparr>trace := trace ?w2 @ map (transform_call encoder) ks\<rparr>"
    unfolding Q_def by blast
  let ?evs = "[h2d_call encoder image', Jpeg_preprocessor_encode]
      @ map (transform_call encoder) ks @ [transform_call encoder c]"
  have "jpeg_encoder_encode env encoder image' w =
      (- 1, w\<lparr>trace := trace w @ ?evs @
         [Fprintf_stderr ''Forward DCT failed for component at index %d!\<newline>'' c]\<rparr>)"
    using assms(1,2,5) eq
    by (simp add: jpeg_encoder_encode_def h2d_call_def [symmetric] Let_def s' dct_body_eq
        trace_call_def)
  moreover have "\<forall>t p. Jpeg_huffman_encoder_encode t p \<notin> set ?evs"
    by (auto simp: h2d_call_def transform_call_def)
  ultimately show ?thesis
    by blast
qed

theorem transform_failure_aborts_witness:
  "jpeg_encoder_encode transform_failing_env example_encoder (Addr 9) example_world =
     (- 1,
      example_world\<lparr>trace :=
        [CudaMemcpy (Addr 3) (Addr 9) 768 cudaMemcpyHostToDevice,
         Jpeg_preprocessor_encode,
         NppiDCTQuantFwd8x8LS (Addr 4, 0) 16 (Addr 6, 0) 256 (Addr 7) (16, 16),
         NppiDCTQuantFwd8x8LS (Addr 4, 256) 16 (Addr 6, 256) 256 (Addr 8) (16, 16),
         Fprintf_stderr ''Forward DCT failed for component at index %d!\<newline>'' 1]\<rparr>)"
proof -
  have "\<forall>k :: c_int. 0 \<le> sint k \<and> sint k < sint (1 :: c_int) \<longrightarrow>
      dct_status transform_failing_env k = 0"
    by (auto simp: transform_failing_env_def example_encode_env_def)
  from transform_failure_aborts [of transform_failing_env 1 example_encoder "Addr 9" example_world,
      OF _ _ _ _ _ this]
  obtain evs where "jpeg_encoder_encode transform_failing_env example_encoder (Addr 9) example_world =
           (- 1, example_world\<lparr>trace := trace example_world @ evs @
              [Fprintf_stderr ''Forward DCT failed for component at index %d!\<newline>'' 1]\<rparr>)"
    by (auto simp: transform_failing_env_def example_encode_env_def example_encoder_def)
  moreover have "jpeg_encoder_encode transform_failing_env example_encoder (Addr 9) example_world =
     (- 1,
      example_world\<lparr>trace :=
        [CudaMemcpy (Addr 3) (Addr 9) 768 cudaMemcpyHostToDevice,
         Jpeg_preprocessor_encode,
         NppiDCTQuantFwd8x8LS (Addr 4, 0) 16 (Addr 6, 0) 256 (Addr 7) (16, 16),
         NppiDCTQuantFwd8x8LS (Addr 4, 256) 16 (Addr 6, 256) 256 (Addr 8) (16, 16),
         Fprintf_stderr ''Forward DCT failed for component at index %d!\<newline>'' 1]\<rparr>)"
    by (simp add: jpeg_encoder_encode_def for_loop.simps dct_body_def Let_def
        transform_failing_env_def example_encode_env_def example_encoder_def example_world_def
        trace_call_def sizeof_uint8_t_def sizeof_int16_t_def)
  ultimately show ?thesis
    by simp
qed

text \<open>
  C5. The claim: \<open>encode\<close> stores to its two output parameters exactly when every
  step succeeded. With a failing copy from the device to the host (the input of C2,
  the same defect) the call returns 0 and stores the Writer's buffer start and the
  length 16 to the output parameters.
\<close>

theorem d2h_failure_output_reported:
  "d2h_status d2h_failing_env \<noteq> cudaSuccess \<and>
   fst (jpeg_encoder_encode d2h_failing_env example_encoder (Addr 9) example_world) = 0 \<and>
   image_compressed
     (snd (jpeg_encoder_encode d2h_failing_env example_encoder (Addr 9) example_world)) =
     Some (Addr 20) \<and>
   image_compressed_size
     (snd (jpeg_encoder_encode d2h_failing_env example_encoder (Addr 9) example_world)) =
     Some 16"
proof -
  obtain r w' where
    e: "jpeg_encoder_encode d2h_failing_env example_encoder (Addr 9) example_world = (r, w')"
    by (cases "jpeg_encoder_encode d2h_failing_env example_encoder (Addr 9) example_world") blast
  have ok: "fst (jpeg_encoder_encode d2h_failing_env example_encoder (Addr 9) example_world) = 0"
    by (simp add: encode_returns_0_iff d2h_failing_env_def example_encode_env_def)
  from e have "image_compressed w' = Some (buffer example_world) \<and>
      image_compressed_size w' =
        Some (of_nat (length (success_bytes d2h_failing_env example_encoder)))"
    by (cases rule: encode_cases) (use ok e in simp_all)
  then have "image_compressed w' = Some (Addr 20) \<and> image_compressed_size w' = Some 16"
    by (simp add: success_bytes_def scan_bytes_def example_encoder_def example_world_def
        comp_indices_0_3 d2h_failing_env_def example_encode_env_def)
  with ok e show ?thesis
    by (simp add: d2h_failing_env_def example_encode_env_def)
qed

section \<open>The order of the calls\<close>

text \<open>
  C6. In every call of \<open>encode\<close>, whatever it returns: wherever a copy from the device
  to the host stands in the list of calls made, the transform primitive has been called
  before it for every component index in \<open>[0, comp_count)\<close>, and it is not called
  after it.
\<close>

theorem transforms_precede_d2h_copy:
  assumes "jpeg_encoder_encode env encoder image' w = (r, w')"
  shows "\<exists>evs. trace w' = trace w @ evs \<and>
     (\<forall>pre x post. evs = pre @ x # post \<and> is_d2h_copy x \<longrightarrow>
        (\<forall>k. 0 \<le> sint k \<and> sint k < sint (comp_count encoder) \<longrightarrow>
           transform_call encoder k \<in> set pre) \<and>
        (\<forall>y\<in>set post. \<not> is_transform y))"
  using assms
proof (cases rule: encode_cases)
  case h2d_failed
  have "\<forall>x\<in>set [h2d_call encoder image']. \<not> is_d2h_copy x"
    by (simp add: h2d_call_def)
  then show ?thesis
    using h2d_failed(3)
    by (intro exI [where x = "[h2d_call encoder image']"] conjI no_d2h_copy_no_split) simp_all
next
  case preprocessor_failed
  let ?evs = "[h2d_call encoder image', Jpeg_preprocessor_encode]"
  have "\<forall>x\<in>set ?evs. \<not> is_d2h_copy x"
    by (simp add: h2d_call_def)
  then show ?thesis
    using preprocessor_failed(4)
    by (intro exI [where x = ?evs] conjI no_d2h_copy_no_split) simp_all
next
  case (transform_failed k ks)
  let ?evs = "[h2d_call encoder image', Jpeg_preprocessor_encode]
      @ map (transform_call encoder) ks
      @ [transform_call encoder k,
         Fprintf_stderr ''Forward DCT failed for component at index %d!\<newline>'' k]"
  have "\<forall>x\<in>set ?evs. \<not> is_d2h_copy x"
    by (auto simp: h2d_call_def transform_call_def)
  then show ?thesis
    using transform_failed(6)
    by (intro exI [where x = ?evs] conjI no_d2h_copy_no_split) simp_all
next
  case (entropy_failed k ks)
  let ?A = "[h2d_call encoder image', Jpeg_preprocessor_encode]
      @ map (transform_call encoder) (comp_indices 0 (comp_count encoder))
      @ [Jpeg_writer_write_header]"
  let ?B = "scan_calls encoder ks
      @ [scan_header_call k, entropy_call encoder k,
         Fprintf_stderr ''Huffman coder failed for component at index %d!\<newline>'' k]"
  have A: "\<forall>a\<in>set ?A. \<not> is_d2h_copy a"
    by (auto simp: h2d_call_def transform_call_def)
  have B: "\<forall>b\<in>set ?B. \<not> is_d2h_copy b \<and> \<not> is_transform b"
    by (auto simp: scan_calls_def scan_header_call_def entropy_call_def)
  have tr: "trace w' = trace w @ (?A @ d2h_call encoder # ?B)"
    using entropy_failed(7) by simp
  have "(\<forall>k. 0 \<le> sint k \<and> sint k < sint (comp_count encoder) \<longrightarrow>
           transform_call encoder k \<in> set pre) \<and> (\<forall>y\<in>set post. \<not> is_transform y)"
    if "?A @ d2h_call encoder # ?B = pre @ x # post" and "is_d2h_copy x" for pre x post
  proof -
    have "pre = ?A \<and> post = ?B"
      using that A B by (intro unique_split [where P = is_d2h_copy]) blast+
    then show ?thesis
      using B by (simp add: set_comp_indices)
  qed
  then show ?thesis
    using tr by (intro exI [where x = "?A @ d2h_call encoder # ?B"]) blast
next
  case succeeded
  let ?A = "[h2d_call encoder image', Jpeg_preprocessor_encode]
      @ map (transform_call encoder) (comp_indices 0 (comp_count encoder))
      @ [Jpeg_writer_write_header]"
  let ?B = "scan_calls encoder (comp_indices 0 (comp_count encoder))
      @ [Jpeg_writer_emit_marker JPEG_MARKER_EOI]"
  have A: "\<forall>a\<in>set ?A. \<not> is_d2h_copy a"
    by (auto simp: h2d_call_def transform_call_def)
  have B: "\<forall>b\<in>set ?B. \<not> is_d2h_copy b \<and> \<not> is_transform b"
    by (auto simp: scan_calls_def scan_header_call_def entropy_call_def)
  have tr: "trace w' = trace w @ (?A @ d2h_call encoder # ?B)"
    using succeeded(6) by (simp add: success_calls_def)
  have "(\<forall>k. 0 \<le> sint k \<and> sint k < sint (comp_count encoder) \<longrightarrow>
           transform_call encoder k \<in> set pre) \<and> (\<forall>y\<in>set post. \<not> is_transform y)"
    if "?A @ d2h_call encoder # ?B = pre @ x # post" and "is_d2h_copy x" for pre x post
  proof -
    have "pre = ?A \<and> post = ?B"
      using that A B by (intro unique_split [where P = is_d2h_copy]) blast+
    then show ?thesis
      using B by (simp add: set_comp_indices)
  qed
  then show ?thesis
    using tr by (intro exI [where x = "?A @ d2h_call encoder # ?B"]) blast
qed

theorem transforms_precede_d2h_copy_witness:
  "NppiDCTQuantFwd8x8LS (Addr 4, 0) 16 (Addr 6, 0) 256 (Addr 7) (16, 16)
     \<in> set (take 6 (trace (snd
          (jpeg_encoder_encode example_encode_env example_encoder (Addr 9) example_world)))) \<and>
   NppiDCTQuantFwd8x8LS (Addr 4, 256) 16 (Addr 6, 256) 256 (Addr 8) (16, 16)
     \<in> set (take 6 (trace (snd
          (jpeg_encoder_encode example_encode_env example_encoder (Addr 9) example_world)))) \<and>
   NppiDCTQuantFwd8x8LS (Addr 4, 512) 16 (Addr 6, 512) 256 (Addr 8) (16, 16)
     \<in> set (take 6 (trace (snd
          (jpeg_encoder_encode example_encode_env example_encoder (Addr 9) example_world)))) \<and>
   is_d2h_copy (trace (snd
          (jpeg_encoder_encode example_encode_env example_encoder (Addr 9) example_world)) ! 6)"
proof -
  define w' where
    "w' = snd (jpeg_encoder_encode example_encode_env example_encoder (Addr 9) example_world)"
  let ?L = "[CudaMemcpy (Addr 3) (Addr 9) 768 cudaMemcpyHostToDevice,
      Jpeg_preprocessor_encode,
      NppiDCTQuantFwd8x8LS (Addr 4, 0) 16 (Addr 6, 0) 256 (Addr 7) (16, 16),
      NppiDCTQuantFwd8x8LS (Addr 4, 256) 16 (Addr 6, 256) 256 (Addr 8) (16, 16),
      NppiDCTQuantFwd8x8LS (Addr 4, 512) 16 (Addr 6, 512) 256 (Addr 8) (16, 16),
      Jpeg_writer_write_header,
      CudaMemcpy (Addr 5) (Addr 6) 1536 cudaMemcpyDeviceToHost,
      Jpeg_writer_write_scan_header 0 JPEG_COMPONENT_LUMINANCE,
      Jpeg_huffman_encoder_encode JPEG_COMPONENT_LUMINANCE (Addr 5, 0),
      Jpeg_writer_write_scan_header 1 JPEG_COMPONENT_CHROMINANCE,
      Jpeg_huffman_encoder_encode JPEG_COMPONENT_CHROMINANCE (Addr 5, 256),
      Jpeg_writer_write_scan_header 2 JPEG_COMPONENT_CHROMINANCE,
      Jpeg_huffman_encoder_encode JPEG_COMPONENT_CHROMINANCE (Addr 5, 512),
      Jpeg_writer_emit_marker JPEG_MARKER_EOI]"
  have e: "jpeg_encoder_encode example_encode_env example_encoder (Addr 9) example_world = (0, w')"
    using example_encode_succeeds [of "Addr 9" example_world] by (simp add: w'_def prod_eq_iff)
  have tr: "trace w' = ?L"
    unfolding w'_def by (rule example_encoder_trace [OF example_encode_succeeds])
  from transforms_precede_d2h_copy [OF e] obtain evs where
    1: "trace w' = trace example_world @ evs" and
    2: "\<forall>pre x post. evs = pre @ x # post \<and> is_d2h_copy x \<longrightarrow>
        (\<forall>k. 0 \<le> sint k \<and> sint k < sint (comp_count example_encoder) \<longrightarrow>
           transform_call example_encoder k \<in> set pre) \<and>
        (\<forall>y\<in>set post. \<not> is_transform y)"
    by blast
  have evs: "evs = ?L"
    using 1 tr by (simp add: example_world_def)
  have split: "?L = take 6 ?L @ (?L ! 6) # drop 7 ?L"
    by simp
  have d2h: "is_d2h_copy (?L ! 6)"
    by simp
  have 3: "\<forall>k. 0 \<le> sint k \<and> sint k < sint (comp_count example_encoder) \<longrightarrow>
      transform_call example_encoder k \<in> set (take 6 ?L)"
    using 2 [unfolded evs] split d2h by blast
  have "transform_call example_encoder 0 \<in> set (take 6 ?L)"
    "transform_call example_encoder 1 \<in> set (take 6 ?L)"
    "transform_call example_encoder 2 \<in> set (take 6 ?L)"
    using 3 by (simp_all add: example_encoder_def)
  then have "NppiDCTQuantFwd8x8LS (Addr 4, 0) 16 (Addr 6, 0) 256 (Addr 7) (16, 16)
       \<in> set (take 6 (trace w'))"
    "NppiDCTQuantFwd8x8LS (Addr 4, 256) 16 (Addr 6, 256) 256 (Addr 8) (16, 16)
       \<in> set (take 6 (trace w'))"
    "NppiDCTQuantFwd8x8LS (Addr 4, 512) 16 (Addr 6, 512) 256 (Addr 8) (16, 16)
       \<in> set (take 6 (trace w'))"
    unfolding tr
    by (simp_all add: transform_call_def example_encoder_def sizeof_uint8_t_def sizeof_int16_t_def)
  moreover have "is_d2h_copy (trace w' ! 6)"
    unfolding tr by simp
  ultimately show ?thesis
    unfolding w'_def by blast
qed

section \<open>Component regions and component classes\<close>




text \<open>
  C8. In a call of \<open>encode\<close> that returns 0, the component index 0 is mapped to the
  luminance class and every other index to the chrominance class, in the same way at
  the three places where a class is used: the quantization table given to the transform
  primitive, the class written to the scan header, and the class given to the entropy
  coder.
\<close>

theorem component_class_mapping:
  assumes "jpeg_encoder_encode env encoder image' w = (0, w')"
  shows "\<exists>evs. trace w' = trace w @ evs \<and>
     List.map_filter transform_table evs =
       map (\<lambda>k. d_table encoder
              (if k = 0 then JPEG_COMPONENT_LUMINANCE else JPEG_COMPONENT_CHROMINANCE))
         (comp_indices 0 (comp_count encoder)) \<and>
     List.map_filter scan_header_args evs =
       map (\<lambda>k. (k, if k = 0 then JPEG_COMPONENT_LUMINANCE else JPEG_COMPONENT_CHROMINANCE))
         (comp_indices 0 (comp_count encoder)) \<and>
     List.map_filter entropy_class evs =
       map (\<lambda>k. if k = 0 then JPEG_COMPONENT_LUMINANCE else JPEG_COMPONENT_CHROMINANCE)
         (comp_indices 0 (comp_count encoder))"
  using encode_success_trace [OF assms] projections_success_calls(2,3,5) by blast

theorem component_class_mapping_witness:
  "List.map_filter transform_table
     (trace (snd (jpeg_encoder_encode example_encode_env example_encoder (Addr 9) example_world))) =
     [Addr 7, Addr 8, Addr 8] \<and>
   List.map_filter scan_header_args
     (trace (snd (jpeg_encoder_encode example_encode_env example_encoder (Addr 9) example_world))) =
     [(0, JPEG_COMPONENT_LUMINANCE), (1, JPEG_COMPONENT_CHROMINANCE),
      (2, JPEG_COMPONENT_CHROMINANCE)] \<and>
   List.map_filter entropy_class
     (trace (snd (jpeg_encoder_encode example_encode_env example_encoder (Addr 9) example_world))) =
     [JPEG_COMPONENT_LUMINANCE, JPEG_COMPONENT_CHROMINANCE, JPEG_COMPONENT_CHROMINANCE]"
  using component_class_mapping [OF example_encode_run [of "Addr 9" example_world]]
  by (auto simp: example_world_def comp_indices_0_3 example_encoder_def)

section \<open>The compressed output\<close>

text \<open>
  C9. Two calls of \<open>encode\<close> in succession on the same context, both returning 0,
  with Writer primitives that advance the cursor when they emit the header and the
  end-of-image marker. Each call, after the copy to the device, the preprocessor and
  the transforms, calls the header emission, the copy to the host, then for each
  component index in increasing order the scan header and the entropy coder, and last
  the marker emission. After each call the bytes in \<open>[buffer, buffer_current)\<close> are the
  header, then per component the scan header and the entropy-coded data, then the
  marker, of this call alone, whatever the cursor was before: they are not empty, and
  the second call's output starts at the buffer start as the first one's does. The
  reported pointer is the buffer start and the reported length is the length of this
  range.
\<close>

theorem encode_output_structure:
  assumes "jpeg_encoder_encode env1 encoder image1 w0 = (0, w1)"
    and "jpeg_encoder_encode env2 encoder image2 w1 = (0, w2)"
    and "header_bytes env1 \<noteq> []" and "marker_bytes env1 JPEG_MARKER_EOI \<noteq> []"
    and "header_bytes env2 \<noteq> []" and "marker_bytes env2 JPEG_MARKER_EOI \<noteq> []"
  shows
    "trace w1 = trace w0
        @ [h2d_call encoder image1, Jpeg_preprocessor_encode]
        @ map (transform_call encoder) (comp_indices 0 (comp_count encoder))
        @ [Jpeg_writer_write_header, d2h_call encoder]
        @ concat (map (\<lambda>k. [scan_header_call k, entropy_call encoder k])
            (comp_indices 0 (comp_count encoder)))
        @ [Jpeg_writer_emit_marker JPEG_MARKER_EOI] \<and>
     compressed_range w1 = header_bytes env1
        @ concat (map (\<lambda>k. scan_header_bytes env1 k
              (if k = 0 then JPEG_COMPONENT_LUMINANCE else JPEG_COMPONENT_CHROMINANCE)
              @ huffman_bytes env1 k)
            (comp_indices 0 (comp_count encoder)))
        @ marker_bytes env1 JPEG_MARKER_EOI \<and>
     compressed_range w1 \<noteq> [] \<and>
     image_compressed w1 = Some (buffer w0) \<and>
     image_compressed_size w1 = Some (of_nat (length (compressed_range w1))) \<and>
     trace w2 = trace w1
        @ [h2d_call encoder image2, Jpeg_preprocessor_encode]
        @ map (transform_call encoder) (comp_indices 0 (comp_count encoder))
        @ [Jpeg_writer_write_header, d2h_call encoder]
        @ concat (map (\<lambda>k. [scan_header_call k, entropy_call encoder k])
            (comp_indices 0 (comp_count encoder)))
        @ [Jpeg_writer_emit_marker JPEG_MARKER_EOI] \<and>
     compressed_range w2 = header_bytes env2
        @ concat (map (\<lambda>k. scan_header_bytes env2 k
              (if k = 0 then JPEG_COMPONENT_LUMINANCE else JPEG_COMPONENT_CHROMINANCE)
              @ huffman_bytes env2 k)
            (comp_indices 0 (comp_count encoder)))
        @ marker_bytes env2 JPEG_MARKER_EOI \<and>
     compressed_range w2 \<noteq> [] \<and>
     image_compressed w2 = Some (buffer w0) \<and>
     image_compressed_size w2 = Some (of_nat (length (compressed_range w2)))"
  using encode_success_trace [OF assms(1)] encode_success_output [OF assms(1)]
    encode_success_trace [OF assms(2)] encode_success_output [OF assms(2)] assms(3-6)
  by (simp add: success_calls_def scan_calls_def success_bytes_def scan_bytes_def [abs_def])

theorem encode_output_structure_witness:
  "compressed_range
     (snd (jpeg_encoder_encode example_encode_env example_encoder (Addr 10)
        (snd (jpeg_encoder_encode example_encode_env example_encoder (Addr 9) example_world)))) =
     [0xFF, 0xD8, 0xFF, 0xDA, 0, 16, 0xFF, 0xDA, 1, 17, 0xFF, 0xDA, 2, 18, 0xFF, 0xD9] \<and>
   image_compressed
     (snd (jpeg_encoder_encode example_encode_env example_encoder (Addr 10)
        (snd (jpeg_encoder_encode example_encode_env example_encoder (Addr 9) example_world)))) =
     Some (Addr 20) \<and>
   image_compressed_size
     (snd (jpeg_encoder_encode example_encode_env example_encoder (Addr 10)
        (snd (jpeg_encoder_encode example_encode_env example_encoder (Addr 9) example_world)))) =
     Some 16"
proof -
  define w1 where
    "w1 = snd (jpeg_encoder_encode example_encode_env example_encoder (Addr 9) example_world)"
  define w2 where
    "w2 = snd (jpeg_encoder_encode example_encode_env example_encoder (Addr 10) w1)"
  have e1: "jpeg_encoder_encode example_encode_env example_encoder (Addr 9) example_world = (0, w1)"
    unfolding w1_def by (rule example_encode_run)
  have e2: "jpeg_encoder_encode example_encode_env example_encoder (Addr 10) w1 = (0, w2)"
    unfolding w2_def by (rule example_encode_run)
  have "header_bytes example_encode_env \<noteq> []"
    and "marker_bytes example_encode_env JPEG_MARKER_EOI \<noteq> []"
    by (simp_all add: example_encode_env_def)
  from encode_output_structure [OF e1 e2 this this]
  have c: "compressed_range w2 = header_bytes example_encode_env
        @ concat (map (\<lambda>k. scan_header_bytes example_encode_env k
              (if k = 0 then JPEG_COMPONENT_LUMINANCE else JPEG_COMPONENT_CHROMINANCE)
              @ huffman_bytes example_encode_env k)
            (comp_indices 0 (comp_count example_encoder)))
        @ marker_bytes example_encode_env JPEG_MARKER_EOI"
    and i: "image_compressed w2 = Some (buffer example_world)"
    and s: "image_compressed_size w2 = Some (of_nat (length (compressed_range w2)))"
    by blast+
  have c': "compressed_range w2 =
      [0xFF, 0xD8, 0xFF, 0xDA, 0, 16, 0xFF, 0xDA, 1, 17, 0xFF, 0xDA, 2, 18, 0xFF, 0xD9]"
    unfolding c by (simp add: comp_indices_0_3 example_encoder_def example_encode_env_def)
  have "image_compressed w2 = Some (Addr 20)"
    unfolding i by (simp add: example_world_def)
  moreover have "image_compressed_size w2 = Some 16"
    unfolding s c' by simp
  ultimately show ?thesis
    using c' unfolding w2_def w1_def by simp
qed

end
